theory Spec2Isabelle
  imports Complex_Main
begin

section \<open>Data model (backtester.h)\<close>

text \<open>
  The C++ sources compute with \<open>double\<close>, \<open>int\<close> and \<open>size_t\<close>.
  \<^item> A \<open>double\<close> is modelled as a \<open>real\<close>. In the first model of the engine
    arithmetic is exact: there is no rounding, no infinity and no NaN. It is used for
    the properties that rounding cannot change. Where rounding decides what the code
    does (how many shares a buy fills, whether a computed deviation is 0), the
    sections on rounded arithmetic further down model the same code with every
    operation rounded to the nearest double.
  \<^item> An \<open>int\<close> is modelled as an \<open>int\<close>; the only place where the code creates an
    \<open>int\<close> from something larger is \<open>static_cast<int>(double)\<close>, which is modelled by
    \<open>double_to_int\<close> below and has no result outside the 32-bit range.
  \<^item> A \<open>size_t\<close> is a \<open>nat\<close>; the one addition that can wrap is written modulo \<open>2 ^ 64\<close>.
  Operations whose behaviour C++ leaves undefined have the result \<open>None\<close>.
  A \<open>double\<close> division by zero whose quotient is only stored (the drawdown when the
  high-water mark is 0, the return when the previous equity is 0) is defined in C++ and
  gives an infinity or NaN; here it has the value 0 that the division of \<open>real\<close> gives.
  The theorems about drawdown values are about runs with a positive initial capital,
  which keeps the high-water mark positive, and no theorem speaks about the values of
  the returns.
  The record fields carry a prefix, since \<open>timestamp\<close> and \<open>price\<close> occur in several
  structs of the source.
\<close>

record Signal =
  sig_timestamp :: string
  sig_price :: real
  sig_signal :: int

record EquityPoint =
  ep_timestamp :: string
  ep_equity :: real

record Trade =
  tr_timestamp :: string
  tr_action :: string
  tr_shares :: int
  tr_price :: real
  tr_value :: real

record BacktestResults =
  finalEquity :: real
  finalReturn :: real
  maxDrawdown :: real
  sharpeRatio :: real
  totalTrades :: int

record Backtester =
  m_initialCapital :: real
  m_cash :: real
  m_position :: int
  m_slippage :: real
  m_latency :: real
  m_signals :: "Signal list"
  m_equity :: "EquityPoint list"
  m_trades :: "Trade list"
  m_drawdowns :: "real list"
  m_returns :: "real list"

section \<open>Conversions\<close>

text \<open>
  \<open>static_cast<int>(x)\<close> for a \<open>double\<close> \<open>x\<close> drops the fractional part (rounds toward
  zero); the behaviour is undefined when the truncated value is not representable.
\<close>

definition truncate_real :: "real \<Rightarrow> int" where
  "truncate_real x = (if 0 \<le> x then \<lfloor>x\<rfloor> else \<lceil>x\<rceil>)"

definition double_to_int :: "real \<Rightarrow> int option" where
  "double_to_int x =
     (let t = truncate_real x
      in if - (2 ^ 31) \<le> t \<and> t < 2 ^ 31 then Some t else None)"

text \<open>\<open>static_cast<size_t>(x)\<close>, with a 64-bit \<open>size_t\<close>.\<close>

definition double_to_size_t :: "real \<Rightarrow> nat option" where
  "double_to_size_t x =
     (let t = truncate_real x
      in if 0 \<le> t \<and> t < 2 ^ 64 then Some (nat t) else None)"

text \<open>
  \<open>static_cast<int>(a / b)\<close>: a \<open>double\<close> division by zero gives an infinity or NaN,
  whose conversion to \<open>int\<close> is undefined.
\<close>

definition shares_for :: "real \<Rightarrow> real \<Rightarrow> int option" where
  "shares_for cash effectivePrice =
     (if effectivePrice = 0 then None else double_to_int (cash / effectivePrice))"

section \<open>Backtester (backtester.cpp)\<close>

definition Backtester_default :: Backtester where
  "Backtester_default =
     \<lparr> m_initialCapital = 10000, m_cash = 10000, m_position = 0,
       m_slippage = 5 / 10000, m_latency = 0,
       m_signals = [], m_equity = [], m_trades = [], m_drawdowns = [], m_returns = [] \<rparr>"

definition Backtester_init :: "real \<Rightarrow> real \<Rightarrow> real \<Rightarrow> Backtester" where
  "Backtester_init initialCapital slippage latency =
     \<lparr> m_initialCapital = initialCapital, m_cash = initialCapital, m_position = 0,
       m_slippage = slippage, m_latency = latency,
       m_signals = [], m_equity = [], m_trades = [], m_drawdowns = [], m_returns = [] \<rparr>"

text \<open>
  \<open>loadSignalsFromCSV\<close>: the file system and the parsing of rows are not modelled.
  The argument is \<open>None\<close> when the file cannot be opened and otherwise the rows that
  parsed, in file order (rows that fail to parse are skipped by the source).
\<close>

definition loadSignalsFromCSV :: "Backtester \<Rightarrow> Signal list option \<Rightarrow> bool \<times> Backtester" where
  "loadSignalsFromCSV b file =
     (case file of
        None \<Rightarrow> (False, b)
      | Some rows \<Rightarrow>
          (rows \<noteq> [],
           b\<lparr> m_signals := rows, m_equity := [], m_drawdowns := [],
              m_cash := m_initialCapital b, m_position := 0 \<rparr>))"

text \<open>The local variables of \<open>runBacktest\<close> together with the object.\<close>

record run_state =
  bt :: Backtester
  lastEquity :: real
  highWaterMark :: real
  currentSignal :: int

text \<open>The price a transition at index \<open>i\<close> executes at, before slippage.\<close>

definition latency_price :: "Backtester \<Rightarrow> nat \<Rightarrow> real option" where
  "latency_price b i =
     (if m_latency b > 0 then
        (case double_to_size_t (m_latency b * 10) of
           None \<Rightarrow> None
         | Some latencySteps \<Rightarrow>
             (let nextIdx = min ((i + latencySteps) mod 2 ^ 64) (length (m_signals b) - 1)
              in Some (sig_price (m_signals b ! nextIdx))))
      else Some (sig_price (m_signals b ! i)))"

text \<open>The body of \<open>if (signal.signal != currentSignal)\<close>, up to the assignment to \<open>currentSignal\<close>.\<close>

definition execute_transition :: "Backtester \<Rightarrow> nat \<Rightarrow> Backtester option" where
  "execute_transition b i =
     (let sg = m_signals b ! i in
      case latency_price b i of
        None \<Rightarrow> None
      | Some basePrice \<Rightarrow>
          (let effectivePrice =
                 (if sig_signal sg = 1 then basePrice * (1 + m_slippage b)
                  else basePrice * (1 - m_slippage b))
           in if sig_signal sg = 1 \<and> m_position b = 0 then
                (case shares_for (m_cash b) effectivePrice of
                   None \<Rightarrow> None
                 | Some shares \<Rightarrow>
                     if shares > 0 then
                       Some (b\<lparr> m_position := shares,
                                m_cash := m_cash b - real_of_int shares * effectivePrice,
                                m_trades := m_trades b @
                                  [\<lparr> tr_timestamp = sig_timestamp sg, tr_action = ''BUY'',
                                     tr_shares = shares, tr_price = effectivePrice,
                                     tr_value = real_of_int shares * effectivePrice \<rparr>] \<rparr>)
                     else Some b)
              else if sig_signal sg = 0 \<and> m_position b > 0 then
                (let proceeds = real_of_int (m_position b) * effectivePrice
                 in Some (b\<lparr> m_trades := m_trades b @
                                 [\<lparr> tr_timestamp = sig_timestamp sg, tr_action = ''SELL'',
                                    tr_shares = m_position b, tr_price = effectivePrice,
                                    tr_value = proceeds \<rparr>],
                               m_cash := m_cash b + proceeds,
                               m_position := 0 \<rparr>))
              else Some b))"

text \<open>
  The part of the loop body after the transition: the equity at the record's own price
  (\<open>equity_at\<close>), the drawdown and the return.
\<close>

definition equity_at :: "Backtester \<Rightarrow> Signal \<Rightarrow> real" where
  "equity_at b sg =
     (if m_position b > 0
      then m_cash b + real_of_int (m_position b) * sig_price sg
      else m_cash b)"

definition record_step :: "Backtester \<Rightarrow> nat \<Rightarrow> real \<Rightarrow> real \<Rightarrow> int \<Rightarrow> run_state" where
  "record_step b i lastEq hwm cs =
     (let sg = m_signals b ! i;
          equity = equity_at b sg;
          hwm' = max hwm equity;
          drawdown = (hwm' - equity) / hwm' * 100;
          dailyReturn = equity / lastEq - 1
      in \<lparr> bt = b\<lparr> m_equity := m_equity b @
                         [\<lparr> ep_timestamp = sig_timestamp sg, ep_equity = equity \<rparr>],
                     m_drawdowns := m_drawdowns b @ [drawdown],
                     m_returns := m_returns b @ [dailyReturn] \<rparr>,
           lastEquity = equity, highWaterMark = hwm', currentSignal = cs \<rparr>)"

text \<open>One iteration of the \<open>for\<close> loop, at index \<open>i\<close>.\<close>

definition loop_body :: "nat \<Rightarrow> run_state \<Rightarrow> run_state option" where
  "loop_body i st =
     (if sig_signal (m_signals (bt st) ! i) \<noteq> currentSignal st then
        (case execute_transition (bt st) i of
           None \<Rightarrow> None
         | Some b' \<Rightarrow>
             Some (record_step b' i (lastEquity st) (highWaterMark st)
                     (sig_signal (m_signals (bt st) ! i))))
      else Some (record_step (bt st) i (lastEquity st) (highWaterMark st) (currentSignal st)))"

text \<open>The state on entry to the loop.\<close>

definition run_init :: "Backtester \<Rightarrow> run_state" where
  "run_init b =
     \<lparr> bt = b\<lparr> m_cash := m_initialCapital b, m_position := 0,
                m_equity := [], m_trades := [], m_drawdowns := [] \<rparr>,
       lastEquity = m_initialCapital b, highWaterMark = m_initialCapital b,
       currentSignal = 0 \<rparr>"

text \<open>The state after the iterations \<open>0, \<dots>, k - 1\<close> of the loop.\<close>

primrec run_upto :: "Backtester \<Rightarrow> nat \<Rightarrow> run_state option" where
  "run_upto b 0 = Some (run_init b)"
| "run_upto b (Suc k) =
     (case run_upto b k of None \<Rightarrow> None | Some st \<Rightarrow> loop_body k st)"

definition runBacktest :: "Backtester \<Rightarrow> Backtester option" where
  "runBacktest b =
     (if m_signals b = [] then Some b
      else map_option bt (run_upto b (length (m_signals b))))"

text \<open>\<open>*std::max_element(first, last)\<close>; dereferencing the end of an empty range is undefined.\<close>

definition max_element :: "real list \<Rightarrow> real option" where
  "max_element xs = (case xs of [] \<Rightarrow> None | x # ys \<Rightarrow> Some (foldl max x ys))"

definition BacktestResults_default :: BacktestResults where
  "BacktestResults_default =
     \<lparr> finalEquity = 0, finalReturn = 0, maxDrawdown = 0, sharpeRatio = 0, totalTrades = 0 \<rparr>"

definition getResults :: "Backtester \<Rightarrow> BacktestResults option" where
  "getResults b =
     (if m_equity b = [] then Some BacktestResults_default
      else
        (case max_element (m_drawdowns b) of
           None \<Rightarrow> None
         | Some maxDD \<Rightarrow>
             (let finalEq = ep_equity (last (m_equity b));
                  totalReturn = foldl (\<lambda>acc r. acc + r) 0 (m_returns b);
                  totalRisk = foldl (\<lambda>acc r. acc + r * r) 0 (m_returns b);
                  meanReturn = totalReturn / real (length (m_returns b));
                  stdDev = sqrt (totalRisk / real (length (m_returns b)) - meanReturn * meanReturn)
              in Some \<lparr> finalEquity = finalEq,
                        finalReturn = (finalEq / m_initialCapital b - 1) * 100,
                        maxDrawdown = maxDD,
                        sharpeRatio = (if stdDev > 0
                                       then (meanReturn * 252) / (stdDev * sqrt 252) else 0),
                        totalTrades = int (length (m_trades b)) \<rparr>)))"

section \<open>PerformanceMetrics (performance_metrics.cpp)\<close>

definition calculateTotalReturn :: "EquityPoint list \<Rightarrow> real \<Rightarrow> real" where
  "calculateTotalReturn equity initialCapital =
     (if equity = [] then 0
      else (ep_equity (last equity) / initialCapital - 1) * 100)"

text \<open>
  One iteration of the loop of \<open>calculateMaxDrawdown\<close>; the pair is
  \<open>(maxDrawdown, peak)\<close>.
\<close>

definition drawdown_step :: "real \<times> real \<Rightarrow> real \<Rightarrow> real \<times> real" where
  "drawdown_step acc v =
     (let peak = (if v > snd acc then v else snd acc);
          drawdown = (peak - v) / peak * 100
      in (max (fst acc) drawdown, peak))"

definition calculateMaxDrawdown :: "real list \<Rightarrow> real" where
  "calculateMaxDrawdown equityValues =
     (case equityValues of
        [] \<Rightarrow> 0
      | v0 # _ \<Rightarrow> fst (foldl drawdown_step (0, v0) equityValues))"

text \<open>
  \<open>calculateSharpeRatio\<close> and \<open>calculateSortinoRatio\<close> test a computed deviation
  against 0.0 before they divide by it. Whether that test succeeds depends on the
  rounding of the operations before it, so the two functions are modelled with rounded
  arithmetic, in the section on the ratios below.
\<close>

text \<open>The extraction loop of \<open>calculateAllMetrics\<close>: the equity values of the points.\<close>

definition equityValues :: "EquityPoint list \<Rightarrow> real list" where
  "equityValues equity = map ep_equity equity"

section \<open>TradeSimulator (trade_simulator.cpp)\<close>

record TradeSimulator =
  ts_slippage :: real
  ts_latency :: real

definition calculateBuyPrice :: "TradeSimulator \<Rightarrow> real \<Rightarrow> real" where
  "calculateBuyPrice ts basePrice = basePrice * (1 + ts_slippage ts)"

definition calculateSellPrice :: "TradeSimulator \<Rightarrow> real \<Rightarrow> real" where
  "calculateSellPrice ts basePrice = basePrice * (1 - ts_slippage ts)"

definition applyLatency :: "TradeSimulator \<Rightarrow> Signal \<Rightarrow> Signal list \<Rightarrow> nat \<Rightarrow> Signal option" where
  "applyLatency ts original signals currentIndex =
     (if ts_latency ts \<le> 0 \<or> signals = [] \<or> currentIndex \<ge> length signals - 1
      then Some original
      else
        (case double_to_size_t (ts_latency ts * 10) of
           None \<Rightarrow> None
         | Some latencySteps \<Rightarrow>
             (let delayedIndex =
                    min ((currentIndex + latencySteps) mod 2 ^ 64) (length signals - 1)
              in Some (original\<lparr> sig_price := sig_price (signals ! delayedIndex) \<rparr>))))"

text \<open>The local variables of \<open>simulateTrades\<close>.\<close>

record sim_state =
  trades :: "Trade list"
  currentPosition :: int
  lastSignal :: int

definition sim_body :: "TradeSimulator \<Rightarrow> Signal list \<Rightarrow> nat \<Rightarrow> sim_state \<Rightarrow> sim_state option" where
  "sim_body ts signals i st =
     (case applyLatency ts (signals ! i) signals i of
        None \<Rightarrow> None
      | Some effectiveSignal \<Rightarrow>
          if sig_signal effectiveSignal \<noteq> lastSignal st then
            (if sig_signal effectiveSignal = 1 \<and> currentPosition st = 0 then
               (let tradePrice = calculateBuyPrice ts (sig_price effectiveSignal)
                in case shares_for 10000 tradePrice of
                     None \<Rightarrow> None
                   | Some shares \<Rightarrow>
                       Some \<lparr> trades = trades st @
                                 [\<lparr> tr_timestamp = sig_timestamp effectiveSignal,
                                    tr_action = ''BUY'', tr_shares = shares,
                                    tr_price = tradePrice,
                                    tr_value = real_of_int shares * tradePrice \<rparr>],
                               currentPosition = shares,
                               lastSignal = sig_signal effectiveSignal \<rparr>)
             else if sig_signal effectiveSignal = 0 \<and> currentPosition st > 0 then
               (let tradePrice = calculateSellPrice ts (sig_price effectiveSignal)
                in Some \<lparr> trades = trades st @
                             [\<lparr> tr_timestamp = sig_timestamp effectiveSignal,
                                tr_action = ''SELL'', tr_shares = currentPosition st,
                                tr_price = tradePrice,
                                tr_value = real_of_int (currentPosition st) * tradePrice \<rparr>],
                           currentPosition = 0,
                           lastSignal = sig_signal effectiveSignal \<rparr>)
             else Some (st\<lparr> lastSignal := sig_signal effectiveSignal \<rparr>))
          else Some st)"

text \<open>The state after the iterations \<open>0, \<dots>, k - 1\<close> of the loop of \<open>simulateTrades\<close>.\<close>

primrec sim_upto :: "TradeSimulator \<Rightarrow> Signal list \<Rightarrow> nat \<Rightarrow> sim_state option" where
  "sim_upto ts signals 0 = Some \<lparr> trades = [], currentPosition = 0, lastSignal = 0 \<rparr>"
| "sim_upto ts signals (Suc k) =
     (case sim_upto ts signals k of None \<Rightarrow> None | Some st \<Rightarrow> sim_body ts signals k st)"

definition simulateTrades :: "TradeSimulator \<Rightarrow> Signal list \<Rightarrow> Trade list option" where
  "simulateTrades ts signals =
     (if signals = [] then Some []
      else map_option trades (sim_upto ts signals (length signals)))"

section \<open>Scenarios\<close>

text \<open>
  The scenario of the specification: capital 10000, no slippage, no latency, prices
  100, 100, 110, 110, 90 with signals 0, 1, 1, 0, 0.
\<close>

definition scenario_signals :: "Signal list" where
  "scenario_signals =
     [\<lparr> sig_timestamp = ''t0'', sig_price = 100, sig_signal = 0 \<rparr>,
      \<lparr> sig_timestamp = ''t1'', sig_price = 100, sig_signal = 1 \<rparr>,
      \<lparr> sig_timestamp = ''t2'', sig_price = 110, sig_signal = 1 \<rparr>,
      \<lparr> sig_timestamp = ''t3'', sig_price = 110, sig_signal = 0 \<rparr>,
      \<lparr> sig_timestamp = ''t4'', sig_price = 90, sig_signal = 0 \<rparr>]"

definition scenario_backtester :: Backtester where
  "scenario_backtester =
     snd (loadSignalsFromCSV (Backtester_init 10000 0 0) (Some scenario_signals))"

section \<open>Predicates and reference functions of the properties\<close>

text \<open>
  A trade log alternates when its sides are BUY, SELL, BUY, \<dots> (the flag says whether
  the next trade has to be a BUY).
\<close>

fun alternates :: "bool \<Rightarrow> Trade list \<Rightarrow> bool" where
  "alternates expectBuy [] = True"
| "alternates expectBuy (t # ts) =
     (tr_action t = (if expectBuy then ''BUY'' else ''SELL'') \<and> alternates (\<not> expectBuy) ts)"

text \<open>
  The drawdown series that belongs to a list of equity values and a starting
  high-water mark: the running maximum, and the percentage by which each value
  lies below it.
\<close>

fun running_drawdowns :: "real \<Rightarrow> real list \<Rightarrow> real list" where
  "running_drawdowns hwm [] = []"
| "running_drawdowns hwm (e # es) =
     (max hwm e - e) / max hwm e * 100 # running_drawdowns (max hwm e) es"

text \<open>
  The invariant of the loop of \<open>runBacktest\<close> behind the alternation of the trade log:
  the log alternates from a BUY, the position is flat exactly after an even number of
  trades, and it is never negative.
\<close>

definition trade_inv :: "run_state \<Rightarrow> bool" where
  "trade_inv st \<longleftrightarrow>
     alternates True (m_trades (bt st))
     \<and> (m_position (bt st) = 0) = even (length (m_trades (bt st)))
     \<and> 0 \<le> m_position (bt st)"

text \<open>
  A run with friction: capital 10000, slippage 1 percent, no latency, one record with
  price 100 and a buy signal. The buy fills 99 shares at 101, so the first equity value,
  9901, is below the initial capital.
\<close>

definition slippage_backtester :: Backtester where
  "slippage_backtester =
     snd (loadSignalsFromCSV (Backtester_init 10000 (1 / 100) 0)
            (Some [\<lparr> sig_timestamp = ''t0'', sig_price = 100, sig_signal = 1 \<rparr>]))"

text \<open>
  A run without friction on a falling price: capital 10000, no slippage, no latency,
  prices 100 and 90 under a buy signal. The first equity value equals the initial capital.
\<close>

definition falling_backtester :: Backtester where
  "falling_backtester =
     snd (loadSignalsFromCSV (Backtester_init 10000 0 0)
            (Some [\<lparr> sig_timestamp = ''t0'', sig_price = 100, sig_signal = 1 \<rparr>,
                   \<lparr> sig_timestamp = ''t1'', sig_price = 90, sig_signal = 1 \<rparr>]))"

text \<open>
  \<open>runBacktest\<close> resets every output vector but \<open>m_returns\<close>. This function forgets
  the return series of a loop state, to compare runs up to it.
\<close>

definition forget_returns :: "run_state \<Rightarrow> run_state" where
  "forget_returns st = st\<lparr> bt := (bt st)\<lparr> m_returns := [] \<rparr> \<rparr>"

text \<open>
  A round trip with a gain followed by a second buy: capital 10000, no slippage, no
  latency, prices 100, 200, 100 with signals 1, 0, 1. The same slippage and latency are
  given to the standalone simulator.
\<close>

definition rebuy_signals :: "Signal list" where
  "rebuy_signals =
     [\<lparr> sig_timestamp = ''t0'', sig_price = 100, sig_signal = 1 \<rparr>,
      \<lparr> sig_timestamp = ''t1'', sig_price = 200, sig_signal = 0 \<rparr>,
      \<lparr> sig_timestamp = ''t2'', sig_price = 100, sig_signal = 1 \<rparr>]"

definition rebuy_backtester :: Backtester where
  "rebuy_backtester = snd (loadSignalsFromCSV (Backtester_init 10000 0 0) (Some rebuy_signals))"

definition rebuy_simulator :: TradeSimulator where
  "rebuy_simulator = \<lparr> ts_slippage = 0, ts_latency = 0 \<rparr>"

text \<open>
  The mean and the population standard deviation of a series, as the specification
  words them, in exact arithmetic.
\<close>

definition spec_mean :: "real list \<Rightarrow> real" where
  "spec_mean xs = sum_list xs / real (length xs)"

definition spec_population_stddev :: "real list \<Rightarrow> real" where
  "spec_population_stddev xs =
     sqrt (sum_list (map (\<lambda>x. (x - spec_mean xs) ^ 2) xs) / real (length xs))"

text \<open>
  The scenario of the specification for a buy that cannot be afforded: capital 50, the
  default slippage 0.0005, no latency, three records at price 100 with a buy signal.
\<close>

definition shortfall_signals :: "Signal list" where
  "shortfall_signals =
     [\<lparr> sig_timestamp = ''t0'', sig_price = 100, sig_signal = 1 \<rparr>,
      \<lparr> sig_timestamp = ''t1'', sig_price = 100, sig_signal = 1 \<rparr>,
      \<lparr> sig_timestamp = ''t2'', sig_price = 100, sig_signal = 1 \<rparr>]"

definition shortfall_backtester :: Backtester where
  "shortfall_backtester =
     snd (loadSignalsFromCSV (Backtester_init 50 (5 / 10000) 0) (Some shortfall_signals))"

section \<open>Rounding to double precision\<close>

text \<open>
  Where a decision of the code depends on the rounding of a \<open>double\<close> operation, the
  exact model above says something else than the code. The functions of this section
  and the next two model IEEE 754 binary64 arithmetic with rounding to nearest, ties to
  even: every arithmetic operation on doubles returns the double nearest to the exact
  result. Overflow to infinity is not modelled (the evaluations below stay far inside
  the range of a double); denormal results are.
\<close>

text \<open>The nearest integer, the even one of two that are equally near.\<close>

definition round_half_even :: "real \<Rightarrow> int" where
  "round_half_even x =
     (let f = \<lfloor>x\<rfloor>; d = x - of_int f
      in if d < 1 / 2 then f else if 1 / 2 < d then f + 1
         else if even f then f else f + 1)"

text \<open>
  The exponent \<open>e\<close> with \<open>2 ^ e \<le> a < 2 ^ (e + 1)\<close>, found by a search from 0 with
  bounded fuel; \<open>binade\<close> stops at - 1022, the exponent of the denormal doubles.
\<close>

primrec binade_from :: "nat \<Rightarrow> real \<Rightarrow> int \<Rightarrow> int" where
  "binade_from 0 a e = e"
| "binade_from (Suc n) a e =
     (if 2 powi (e + 1) \<le> a then binade_from n a (e + 1)
      else if a < 2 powi e then binade_from n a (e - 1)
      else e)"

definition binade :: "real \<Rightarrow> int" where
  "binade a = max (- 1022) (binade_from 2200 a 0)"

text \<open>
  The double nearest to \<open>x\<close>: doubles with exponent \<open>e\<close> are the multiples of
  \<open>2 ^ (e - 52)\<close>.
\<close>

definition round_double :: "real \<Rightarrow> real" where
  "round_double x =
     (if x = 0 then 0
      else (let e = binade \<bar>x\<bar>; q = 2 powi (e - 52)
            in sgn x * of_int (round_half_even (\<bar>x\<bar> / q)) * q))"

section \<open>Backtester with rounded arithmetic\<close>

text \<open>
  The functions of \<open>runBacktest\<close> once more, with a rounding function \<open>rd\<close> applied to
  the result of every arithmetic operation on doubles, in the order in which the source
  evaluates them. A conversion of an \<open>int\<close> to \<open>double\<close> is exact. With the identity
  for \<open>rd\<close> they are the functions of the exact model; with \<open>round_double\<close> they
  compute what the code computes.
\<close>

definition latency_price_fp :: "(real \<Rightarrow> real) \<Rightarrow> Backtester \<Rightarrow> nat \<Rightarrow> real option" where
  "latency_price_fp rd b i =
     (if m_latency b > 0 then
        (case double_to_size_t (rd (m_latency b * 10)) of
           None \<Rightarrow> None
         | Some latencySteps \<Rightarrow>
             (let nextIdx = min ((i + latencySteps) mod 2 ^ 64) (length (m_signals b) - 1)
              in Some (sig_price (m_signals b ! nextIdx))))
      else Some (sig_price (m_signals b ! i)))"

definition shares_for_fp :: "(real \<Rightarrow> real) \<Rightarrow> real \<Rightarrow> real \<Rightarrow> int option" where
  "shares_for_fp rd cash effectivePrice =
     (if effectivePrice = 0 then None else double_to_int (rd (cash / effectivePrice)))"

definition execute_transition_fp :: "(real \<Rightarrow> real) \<Rightarrow> Backtester \<Rightarrow> nat \<Rightarrow> Backtester option" where
  "execute_transition_fp rd b i =
     (let sg = m_signals b ! i in
      case latency_price_fp rd b i of
        None \<Rightarrow> None
      | Some basePrice \<Rightarrow>
          (let effectivePrice =
                 (if sig_signal sg = 1 then rd (basePrice * rd (1 + m_slippage b))
                  else rd (basePrice * rd (1 - m_slippage b)))
           in if sig_signal sg = 1 \<and> m_position b = 0 then
                (case shares_for_fp rd (m_cash b) effectivePrice of
                   None \<Rightarrow> None
                 | Some shares \<Rightarrow>
                     if shares > 0 then
                       Some (b\<lparr> m_position := shares,
                                m_cash := rd (m_cash b - rd (real_of_int shares * effectivePrice)),
                                m_trades := m_trades b @
                                  [\<lparr> tr_timestamp = sig_timestamp sg, tr_action = ''BUY'',
                                     tr_shares = shares, tr_price = effectivePrice,
                                     tr_value = rd (real_of_int shares * effectivePrice) \<rparr>] \<rparr>)
                     else Some b)
              else if sig_signal sg = 0 \<and> m_position b > 0 then
                (let proceeds = rd (real_of_int (m_position b) * effectivePrice)
                 in Some (b\<lparr> m_trades := m_trades b @
                                 [\<lparr> tr_timestamp = sig_timestamp sg, tr_action = ''SELL'',
                                    tr_shares = m_position b, tr_price = effectivePrice,
                                    tr_value = proceeds \<rparr>],
                               m_cash := rd (m_cash b + proceeds),
                               m_position := 0 \<rparr>))
              else Some b))"

definition equity_at_fp :: "(real \<Rightarrow> real) \<Rightarrow> Backtester \<Rightarrow> Signal \<Rightarrow> real" where
  "equity_at_fp rd b sg =
     (if m_position b > 0
      then rd (m_cash b + rd (real_of_int (m_position b) * sig_price sg))
      else m_cash b)"

definition record_step_fp ::
  "(real \<Rightarrow> real) \<Rightarrow> Backtester \<Rightarrow> nat \<Rightarrow> real \<Rightarrow> real \<Rightarrow> int \<Rightarrow> run_state" where
  "record_step_fp rd b i lastEq hwm cs =
     (let sg = m_signals b ! i;
          equity = equity_at_fp rd b sg;
          hwm' = max hwm equity;
          drawdown = rd (rd (rd (hwm' - equity) / hwm') * 100);
          dailyReturn = rd (rd (equity / lastEq) - 1)
      in \<lparr> bt = b\<lparr> m_equity := m_equity b @
                         [\<lparr> ep_timestamp = sig_timestamp sg, ep_equity = equity \<rparr>],
                     m_drawdowns := m_drawdowns b @ [drawdown],
                     m_returns := m_returns b @ [dailyReturn] \<rparr>,
           lastEquity = equity, highWaterMark = hwm', currentSignal = cs \<rparr>)"

definition loop_body_fp :: "(real \<Rightarrow> real) \<Rightarrow> nat \<Rightarrow> run_state \<Rightarrow> run_state option" where
  "loop_body_fp rd i st =
     (if sig_signal (m_signals (bt st) ! i) \<noteq> currentSignal st then
        (case execute_transition_fp rd (bt st) i of
           None \<Rightarrow> None
         | Some b' \<Rightarrow>
             Some (record_step_fp rd b' i (lastEquity st) (highWaterMark st)
                     (sig_signal (m_signals (bt st) ! i))))
      else Some (record_step_fp rd (bt st) i (lastEquity st) (highWaterMark st)
                   (currentSignal st)))"

primrec run_upto_fp :: "(real \<Rightarrow> real) \<Rightarrow> Backtester \<Rightarrow> nat \<Rightarrow> run_state option" where
  "run_upto_fp rd b 0 = Some (run_init b)"
| "run_upto_fp rd b (Suc k) =
     (case run_upto_fp rd b k of None \<Rightarrow> None | Some st \<Rightarrow> loop_body_fp rd k st)"

definition runBacktest_fp :: "(real \<Rightarrow> real) \<Rightarrow> Backtester \<Rightarrow> Backtester option" where
  "runBacktest_fp rd b =
     (if m_signals b = [] then Some b
      else map_option bt (run_upto_fp rd b (length (m_signals b))))"

text \<open>\<open>runBacktest\<close> as the code computes it, in double precision.\<close>

definition runBacktest_double :: "Backtester \<Rightarrow> Backtester option" where
  "runBacktest_double b = runBacktest_fp round_double b"

text \<open>
  A run on which rounding makes the code buy a share too many: capital 45907.71, no
  slippage, no latency, a buy signal at price 9.39 and then the same signal at price
  1e-20. The decimal numbers of the input are the doubles nearest to them.
\<close>

definition overbuy_backtester :: Backtester where
  "overbuy_backtester =
     snd (loadSignalsFromCSV (Backtester_init (round_double (4590771 / 100)) 0 0)
            (Some [\<lparr> sig_timestamp = ''t0'', sig_price = round_double (939 / 100),
                      sig_signal = 1 \<rparr>,
                   \<lparr> sig_timestamp = ''t1'', sig_price = round_double (1 / 100000000000000000000),
                      sig_signal = 1 \<rparr>]))"

section \<open>PerformanceMetrics ratios with rounded arithmetic\<close>

text \<open>
  \<open>calculateSharpeRatio\<close> and \<open>calculateSortinoRatio\<close> with a rounding function
  \<open>rd\<close> applied to the result of every operation on doubles, the square root
  included, in the order in which the source evaluates them. \<open>std::accumulate\<close> starts
  from 0.0 and adds the elements from the left; \<open>returns.size()\<close> converts exactly.
\<close>

definition calculateSharpeRatio_fp :: "(real \<Rightarrow> real) \<Rightarrow> real list \<Rightarrow> real \<Rightarrow> real" where
  "calculateSharpeRatio_fp rd returns riskFreeRate =
     (if returns = [] then 0
      else
        (let sum = foldl (\<lambda>acc r. rd (acc + r)) 0 returns;
             mean = rd (sum / real (length returns));
             squaredSum =
               foldl (\<lambda>acc ret. rd (acc + rd (rd (ret - mean) * rd (ret - mean)))) 0 returns;
             stdDev = rd (sqrt (rd (squaredSum / real (length returns))))
         in if stdDev = 0 then 0
            else rd (rd (rd (mean - rd (riskFreeRate / 252)) / stdDev) * rd (sqrt 252))))"

text \<open>
  One iteration of the downside loop of \<open>calculateSortinoRatio\<close>; the pair is
  \<open>(squaredDownsideSum, downsideCount)\<close>.
\<close>

definition downside_step_fp :: "(real \<Rightarrow> real) \<Rightarrow> real \<times> int \<Rightarrow> real \<Rightarrow> real \<times> int" where
  "downside_step_fp rd acc ret =
     (if ret < 0 then (rd (fst acc + rd (ret * ret)), snd acc + 1) else acc)"

definition calculateSortinoRatio_fp :: "(real \<Rightarrow> real) \<Rightarrow> real list \<Rightarrow> real \<Rightarrow> real" where
  "calculateSortinoRatio_fp rd returns riskFreeRate =
     (if returns = [] then 0
      else
        (let sum = foldl (\<lambda>acc r. rd (acc + r)) 0 returns;
             mean = rd (sum / real (length returns));
             down = foldl (downside_step_fp rd) (0, 0) returns
         in if snd down = 0 then 0
            else rd (rd (rd (mean - rd (riskFreeRate / 252))
                           / rd (sqrt (rd (fst down / real_of_int (snd down)))))
                     * rd (sqrt 252))))"

text \<open>The two ratios as the code computes them, in double precision.\<close>

definition calculateSharpeRatio_double :: "real list \<Rightarrow> real \<Rightarrow> real" where
  "calculateSharpeRatio_double returns riskFreeRate =
     calculateSharpeRatio_fp round_double returns riskFreeRate"

definition calculateSortinoRatio_double :: "real list \<Rightarrow> real \<Rightarrow> real" where
  "calculateSortinoRatio_double returns riskFreeRate =
     calculateSortinoRatio_fp round_double returns riskFreeRate"

section \<open>Evaluation\<close>

lemmas backtest_eval =
  Backtester_init_def loadSignalsFromCSV_def runBacktest_def run_init_def loop_body_def
  record_step_def equity_at_def execute_transition_def latency_price_def shares_for_def double_to_int_def
  double_to_size_t_def truncate_real_def Let_def

section \<open>The worked scenario\<close>


section \<open>The loop of runBacktest, step by step\<close>

lemma execute_transition_cases [consumes 1, case_names none buy sell]:
  assumes "execute_transition b i = Some b'"
  obtains (none) "b' = b"
  | (buy) p sh where "sig_signal (m_signals b ! i) = 1" "m_position b = 0"
      "latency_price b i = Some p"
      "shares_for (m_cash b) (p * (1 + m_slippage b)) = Some sh" "0 < sh"
      "b' = b\<lparr> m_position := sh,
                m_cash := m_cash b - real_of_int sh * (p * (1 + m_slippage b)),
                m_trades := m_trades b @
                  [\<lparr> tr_timestamp = sig_timestamp (m_signals b ! i), tr_action = ''BUY'',
                     tr_shares = sh, tr_price = p * (1 + m_slippage b),
                     tr_value = real_of_int sh * (p * (1 + m_slippage b)) \<rparr>] \<rparr>"
  | (sell) p where "sig_signal (m_signals b ! i) = 0" "0 < m_position b"
      "latency_price b i = Some p"
      "b' = b\<lparr> m_trades := m_trades b @
                  [\<lparr> tr_timestamp = sig_timestamp (m_signals b ! i), tr_action = ''SELL'',
                     tr_shares = m_position b, tr_price = p * (1 - m_slippage b),
                     tr_value = real_of_int (m_position b) * (p * (1 - m_slippage b)) \<rparr>],
                m_cash := m_cash b + real_of_int (m_position b) * (p * (1 - m_slippage b)),
                m_position := 0 \<rparr>"
proof -
  from assms obtain p where p: "latency_price b i = Some p"
    unfolding execute_transition_def Let_def by (cases "latency_price b i") simp_all
  show thesis
  proof (cases "sig_signal (m_signals b ! i) = 1 \<and> m_position b = 0")
    case True
    with assms p obtain sh where sh: "shares_for (m_cash b) (p * (1 + m_slippage b)) = Some sh"
      unfolding execute_transition_def Let_def
      by (cases "shares_for (m_cash b) (p * (1 + m_slippage b))") simp_all
    show thesis
    proof (cases "0 < sh")
      case pos: True
      show thesis
        apply (rule buy [OF _ _ p sh pos])
        using True assms p sh pos unfolding execute_transition_def Let_def by simp_all
    next
      case False
      show thesis
        apply (rule none)
        using True assms p sh False unfolding execute_transition_def Let_def by simp
    qed
  next
    case nb: False
    show thesis
    proof (cases "sig_signal (m_signals b ! i) = 0 \<and> 0 < m_position b")
      case True
      show thesis
        apply (rule sell [OF _ _ p])
        using True assms p nb unfolding execute_transition_def Let_def by simp_all
    next
      case False
      show thesis
        apply (rule none)
        using nb assms p False unfolding execute_transition_def Let_def by (simp split: if_splits)
    qed
  qed
qed

lemma loop_body_Some:
  assumes "loop_body i st = Some st'"
  obtains b' cs where "execute_transition (bt st) i = Some b' \<or> b' = bt st"
    "st' = record_step b' i (lastEquity st) (highWaterMark st) cs"
  using assms unfolding loop_body_def by (simp split: option.splits if_splits) blast+

lemma record_step_bt [simp]:
  "m_cash (bt (record_step b i le h cs)) = m_cash b"
  "m_position (bt (record_step b i le h cs)) = m_position b"
  "m_trades (bt (record_step b i le h cs)) = m_trades b"
  "m_signals (bt (record_step b i le h cs)) = m_signals b"
  "m_initialCapital (bt (record_step b i le h cs)) = m_initialCapital b"
  "m_slippage (bt (record_step b i le h cs)) = m_slippage b"
  "m_latency (bt (record_step b i le h cs)) = m_latency b"
  by (simp_all add: record_step_def Let_def)

lemma record_step_out [simp]:
  "m_equity (bt (record_step b i le h cs)) =
     m_equity b @ [\<lparr> ep_timestamp = sig_timestamp (m_signals b ! i),
                      ep_equity = equity_at b (m_signals b ! i) \<rparr>]"
  "m_drawdowns (bt (record_step b i le h cs)) =
     m_drawdowns b @ [(max h (equity_at b (m_signals b ! i)) - equity_at b (m_signals b ! i))
                        / max h (equity_at b (m_signals b ! i)) * 100]"
  "m_returns (bt (record_step b i le h cs)) =
     m_returns b @ [equity_at b (m_signals b ! i) / le - 1]"
  "lastEquity (record_step b i le h cs) = equity_at b (m_signals b ! i)"
  "highWaterMark (record_step b i le h cs) = max h (equity_at b (m_signals b ! i))"
  "currentSignal (record_step b i le h cs) = cs"
  by (simp_all add: record_step_def Let_def)

lemma run_upto_induct [consumes 1, case_names init step]:
  assumes "run_upto b k = Some st"
    and "P (run_init b)"
    and "\<And>i s s'. i < k \<Longrightarrow> run_upto b i = Some s \<Longrightarrow> P s \<Longrightarrow> loop_body i s = Some s' \<Longrightarrow> P s'"
  shows "P st"
  using assms
proof (induction k arbitrary: st)
  case 0
  then show ?case by simp
next
  case (Suc k)
  from Suc.prems(1) obtain s where s: "run_upto b k = Some s" and st: "loop_body k s = Some st"
    by (auto split: option.splits)
  have "P s"
    by (rule Suc.IH [OF s Suc.prems(2)]) (rule Suc.prems(3), auto)
  with Suc.prems(3) [of k s st] s st show ?case by simp
qed

text \<open>What an iteration leaves alone: the parameters and the signals.\<close>

lemma execute_transition_params:
  assumes "execute_transition b i = Some b'"
  shows "m_signals b' = m_signals b \<and> m_initialCapital b' = m_initialCapital b
    \<and> m_slippage b' = m_slippage b \<and> m_latency b' = m_latency b
    \<and> m_equity b' = m_equity b \<and> m_drawdowns b' = m_drawdowns b \<and> m_returns b' = m_returns b"
  using assms by (cases rule: execute_transition_cases) simp_all

lemma loop_body_params:
  assumes "loop_body i st = Some st'"
  shows "m_signals (bt st') = m_signals (bt st) \<and> m_initialCapital (bt st') = m_initialCapital (bt st)
    \<and> m_slippage (bt st') = m_slippage (bt st) \<and> m_latency (bt st') = m_latency (bt st)"
proof -
  from assms obtain b' cs where b': "execute_transition (bt st) i = Some b' \<or> b' = bt st"
    and st': "st' = record_step b' i (lastEquity st) (highWaterMark st) cs"
    by (rule loop_body_Some)
  from b' show ?thesis
    using st' by (auto dest: execute_transition_params)
qed

lemma run_init_simps [simp]:
  "m_signals (bt (run_init b)) = m_signals b"
  "m_initialCapital (bt (run_init b)) = m_initialCapital b"
  "m_slippage (bt (run_init b)) = m_slippage b"
  "m_latency (bt (run_init b)) = m_latency b"
  "m_cash (bt (run_init b)) = m_initialCapital b"
  "m_position (bt (run_init b)) = 0"
  "m_equity (bt (run_init b)) = []"
  "m_trades (bt (run_init b)) = []"
  "m_drawdowns (bt (run_init b)) = []"
  "m_returns (bt (run_init b)) = m_returns b"
  "lastEquity (run_init b) = m_initialCapital b"
  "highWaterMark (run_init b) = m_initialCapital b"
  "currentSignal (run_init b) = 0"
  by (simp_all add: run_init_def)

lemma run_upto_params:
  assumes "run_upto b k = Some st"
  shows "m_signals (bt st) = m_signals b \<and> m_initialCapital (bt st) = m_initialCapital b
    \<and> m_slippage (bt st) = m_slippage b \<and> m_latency (bt st) = m_latency b"
  using assms
proof (induction rule: run_upto_induct)
  case init
  show ?case by simp
next
  case (step i s s')
  then show ?case using loop_body_params [of i s s'] by simp
qed




section \<open>Alternation of the trade log\<close>

lemma alternates_snoc:
  "alternates e (ts @ [t]) =
     (alternates e ts \<and> tr_action t = (if even (length ts) = e then ''BUY'' else ''SELL''))"
  by (induction ts arbitrary: e) auto

lemma alternates_nth:
  "alternates e ts \<Longrightarrow> i < length ts \<Longrightarrow>
     tr_action (ts ! i) = (if even i = e then ''BUY'' else ''SELL'')"
proof (induction ts arbitrary: e i)
  case Nil
  then show ?case by simp
next
  case (Cons t ts)
  then show ?case by (cases i) auto
qed


lemma trade_inv_step:
  assumes inv: "trade_inv st" and step: "loop_body i st = Some st'"
  shows "trade_inv st'"
proof -
  from step obtain b' cs where b': "execute_transition (bt st) i = Some b' \<or> b' = bt st"
    and st': "st' = record_step b' i (lastEquity st) (highWaterMark st) cs"
    by (rule loop_body_Some)
  from b' have "alternates True (m_trades b')
     \<and> (m_position b' = 0) = even (length (m_trades b')) \<and> 0 \<le> m_position b'"
  proof
    assume "execute_transition (bt st) i = Some b'"
    then show ?thesis
    proof (cases rule: execute_transition_cases)
      case none
      with inv show ?thesis by (simp add: trade_inv_def)
    next
      case (buy p sh)
      with inv show ?thesis by (simp add: trade_inv_def alternates_snoc)
    next
      case (sell p)
      with inv show ?thesis by (simp add: trade_inv_def alternates_snoc)
    qed
  next
    assume "b' = bt st"
    with inv show ?thesis by (simp add: trade_inv_def)
  qed
  with st' show ?thesis by (simp add: trade_inv_def)
qed

lemma run_upto_trade_inv:
  assumes "run_upto b k = Some st"
  shows "trade_inv st"
  using assms
proof (induction rule: run_upto_induct)
  case init
  show ?case by (simp add: trade_inv_def)
next
  case (step i s s')
  then show ?case by (blast intro: trade_inv_step)
qed

lemma runBacktest_Some:
  assumes "m_signals b \<noteq> []" and "runBacktest b = Some b'"
  obtains st where "run_upto b (length (m_signals b)) = Some st" "b' = bt st"
  using assms by (auto simp: runBacktest_def)

text \<open>
  C5. In the trade log of a run the sides alternate BUY, SELL, BUY, \<dots>: the log
  alternates starting with a BUY, so the first trade, if there is one, is a BUY, and no
  two consecutive trades have the same side. This holds for every signal sequence
  (any prices, any integer signal values) on which the run is defined.
\<close>

theorem trades_alternate_from_buy:
  assumes "m_signals b \<noteq> []" and "runBacktest b = Some b'"
  shows "alternates True (m_trades b')
    \<and> (m_trades b' \<noteq> [] \<longrightarrow> tr_action (hd (m_trades b')) = ''BUY'')
    \<and> (\<forall>j. Suc j < length (m_trades b') \<longrightarrow>
          tr_action (m_trades b' ! j) \<noteq> tr_action (m_trades b' ! Suc j))"
proof -
  from assms obtain st where st: "run_upto b (length (m_signals b)) = Some st" and b': "b' = bt st"
    by (rule runBacktest_Some)
  from run_upto_trade_inv [OF st] b' have alt: "alternates True (m_trades b')"
    by (simp add: trade_inv_def)
  have first: "tr_action (hd (m_trades b')) = ''BUY''" if "m_trades b' \<noteq> []"
    using alt that by (cases "m_trades b'") simp_all
  have diff: "tr_action (m_trades b' ! j) \<noteq> tr_action (m_trades b' ! Suc j)"
    if "Suc j < length (m_trades b')" for j
    using alternates_nth [OF alt, of j] alternates_nth [OF alt that] that by simp
  from alt first diff show ?thesis by blast
qed

theorem trades_alternate_from_buy_witness:
  "m_signals scenario_backtester \<noteq> []
   \<and> runBacktest scenario_backtester \<noteq> None
   \<and> map tr_action (m_trades (the (runBacktest scenario_backtester))) = [''BUY'', ''SELL'']
   \<and> alternates True (m_trades (the (runBacktest scenario_backtester)))
   \<and> tr_action (m_trades (the (runBacktest scenario_backtester)) ! 0)
       \<noteq> tr_action (m_trades (the (runBacktest scenario_backtester)) ! Suc 0)"
proof -
  have ne: "m_signals scenario_backtester \<noteq> []"
    by (simp add: scenario_backtester_def scenario_signals_def loadSignalsFromCSV_def)
  have tr: "map_option (map tr_action \<circ> m_trades) (runBacktest scenario_backtester)
              = Some [''BUY'', ''SELL'']"
    by (simp add: scenario_backtester_def scenario_signals_def backtest_eval eval_nat_numeral)
  then obtain b' where run: "runBacktest scenario_backtester = Some b'"
    and acts: "map tr_action (m_trades b') = [''BUY'', ''SELL'']"
    by auto
  from acts have len: "Suc 0 < length (m_trades b')"
    by (metis length_map length_Cons list.size(3) lessI)
  from trades_alternate_from_buy [OF ne run] len ne run acts show ?thesis
    by simp
qed

section \<open>The equity path, step by step\<close>

lemma run_upto_earlier:
  assumes "run_upto b n = Some st" and "k \<le> n"
  shows "\<exists>s. run_upto b k = Some s"
  using assms
proof (induction n arbitrary: st)
  case 0
  then show ?case by simp
next
  case (Suc n)
  show ?case
  proof (cases "k = Suc n")
    case True
    with Suc.prems show ?thesis by blast
  next
    case False
    with Suc.prems have "k \<le> n" by simp
    moreover from Suc.prems(1) obtain s where "run_upto b n = Some s"
      by (auto split: option.splits)
    ultimately show ?thesis using Suc.IH by blast
  qed
qed

lemma equity_at_record_step [simp]:
  "equity_at (bt (record_step b i le h cs)) sg = equity_at b sg"
  by (simp add: equity_at_def)

lemma loop_body_outputs:
  assumes "loop_body i st = Some st'"
  shows "m_equity (bt st') = m_equity (bt st) @
           [\<lparr> ep_timestamp = sig_timestamp (m_signals (bt st) ! i),
              ep_equity = equity_at (bt st') (m_signals (bt st) ! i) \<rparr>]"
    and "m_drawdowns (bt st') = m_drawdowns (bt st) @
           [(highWaterMark st' - equity_at (bt st') (m_signals (bt st) ! i))
              / highWaterMark st' * 100]"
    and "highWaterMark st' = max (highWaterMark st) (equity_at (bt st') (m_signals (bt st) ! i))"
    and "length (m_returns (bt st')) = Suc (length (m_returns (bt st)))"
proof -
  from assms obtain b' cs where b': "execute_transition (bt st) i = Some b' \<or> b' = bt st"
    and st': "st' = record_step b' i (lastEquity st) (highWaterMark st) cs"
    by (rule loop_body_Some)
  from b' have same: "m_signals b' = m_signals (bt st) \<and> m_equity b' = m_equity (bt st)
      \<and> m_drawdowns b' = m_drawdowns (bt st) \<and> m_returns b' = m_returns (bt st)"
    by (auto dest: execute_transition_params)
  show "m_equity (bt st') = m_equity (bt st) @
           [\<lparr> ep_timestamp = sig_timestamp (m_signals (bt st) ! i),
              ep_equity = equity_at (bt st') (m_signals (bt st) ! i) \<rparr>]"
    using st' same by simp
  show "highWaterMark st' = max (highWaterMark st) (equity_at (bt st') (m_signals (bt st) ! i))"
    using st' same by simp
  show "m_drawdowns (bt st') = m_drawdowns (bt st) @
           [(highWaterMark st' - equity_at (bt st') (m_signals (bt st) ! i))
              / highWaterMark st' * 100]"
    using st' same by simp
  show "length (m_returns (bt st')) = Suc (length (m_returns (bt st)))"
    using st' same by simp
qed

lemma run_upto_lengths:
  assumes "run_upto b k = Some st"
  shows "length (m_equity (bt st)) = k \<and> length (m_drawdowns (bt st)) = k"
  using assms
proof (induction k arbitrary: st)
  case 0
  then show ?case by auto
next
  case (Suc k)
  from Suc.prems obtain s where s: "run_upto b k = Some s" and st: "loop_body k s = Some st"
    by (auto split: option.splits)
  from Suc.IH [OF s] loop_body_outputs(1,2) [OF st] show ?case by simp
qed

lemma run_upto_take:
  assumes "run_upto b n = Some st" and "run_upto b k = Some s" and "k \<le> n"
  shows "take k (m_equity (bt st)) = m_equity (bt s)
    \<and> take k (m_drawdowns (bt st)) = m_drawdowns (bt s)"
  using assms
proof (induction n arbitrary: st)
  case 0
  then show ?case by auto
next
  case (Suc n)
  show ?case
  proof (cases "k = Suc n")
    case True
    with Suc.prems run_upto_lengths [OF Suc.prems(1)] show ?thesis by simp
  next
    case False
    with Suc.prems have kn: "k \<le> n" by simp
    from Suc.prems(1) obtain t where t: "run_upto b n = Some t" and st: "loop_body n t = Some st"
      by (auto split: option.splits)
    from Suc.IH [OF t Suc.prems(2) kn] run_upto_lengths [OF t] kn
      loop_body_outputs(1,2) [OF st]
    show ?thesis by simp
  qed
qed

text \<open>
  C3. The equity recorded at step \<open>i\<close> is the cash held after step \<open>i\<close> plus the
  position held after step \<open>i\<close> times the price of record \<open>i\<close> itself, and that
  position is not negative. The state after step \<open>i\<close> is the state of the loop after
  \<open>i + 1\<close> iterations.
\<close>

theorem equity_is_cash_plus_position_value:
  assumes "runBacktest b = Some b'" and "i < length (m_signals b)"
  shows "\<exists>st. run_upto b (Suc i) = Some st
    \<and> 0 \<le> m_position (bt st)
    \<and> ep_equity (m_equity b' ! i) =
        m_cash (bt st) + real_of_int (m_position (bt st)) * sig_price (m_signals b ! i)"
proof -
  from assms have ne: "m_signals b \<noteq> []" by auto
  from ne assms(1) obtain fin where fin: "run_upto b (length (m_signals b)) = Some fin"
    and b': "b' = bt fin"
    by (rule runBacktest_Some)
  from assms(2) have le: "Suc i \<le> length (m_signals b)" by simp
  from run_upto_earlier [OF fin le] obtain st where st: "run_upto b (Suc i) = Some st" ..
  then obtain s where s: "run_upto b i = Some s" and body: "loop_body i s = Some st"
    by (auto split: option.splits)
  from run_upto_trade_inv [OF st] have pos: "0 \<le> m_position (bt st)"
    by (simp add: trade_inv_def)
  from run_upto_params [OF s] have sigs: "m_signals (bt s) = m_signals b" by simp
  from run_upto_lengths [OF s] have len: "length (m_equity (bt s)) = i" by simp
  from run_upto_take [OF fin st le] have "m_equity b' ! i = m_equity (bt st) ! i"
    unfolding b' by (metis lessI nth_take)
  also from loop_body_outputs(1) [OF body] len sigs
  have "ep_equity (m_equity (bt st) ! i) = equity_at (bt st) (m_signals b ! i)"
    by (simp add: nth_append)
  finally have "ep_equity (m_equity b' ! i) = equity_at (bt st) (m_signals b ! i)" .
  with pos have "ep_equity (m_equity b' ! i) =
        m_cash (bt st) + real_of_int (m_position (bt st)) * sig_price (m_signals b ! i)"
    by (simp add: equity_at_def)
  with st pos show ?thesis by blast
qed


lemma scenario_run_defined:
  "m_signals scenario_backtester \<noteq> [] \<and> length (m_signals scenario_backtester) = 5
   \<and> runBacktest scenario_backtester = Some (the (runBacktest scenario_backtester))"
proof -
  have "map_option (map tr_action \<circ> m_trades) (runBacktest scenario_backtester)
          = Some [''BUY'', ''SELL'']"
    by (simp add: scenario_backtester_def scenario_signals_def backtest_eval eval_nat_numeral)
  then have "runBacktest scenario_backtester = Some (the (runBacktest scenario_backtester))"
    by auto
  then show ?thesis
    by (simp add: scenario_backtester_def scenario_signals_def loadSignalsFromCSV_def)
qed

theorem equity_is_cash_plus_position_value_witness:
  "(2::nat) < length (m_signals scenario_backtester)
   \<and> runBacktest scenario_backtester \<noteq> None
   \<and> (\<exists>st. run_upto scenario_backtester (Suc 2) = Some st
        \<and> 0 \<le> m_position (bt st)
        \<and> ep_equity (m_equity (the (runBacktest scenario_backtester)) ! 2) =
            m_cash (bt st) + real_of_int (m_position (bt st))
              * sig_price (m_signals scenario_backtester ! 2))"
proof -
  from scenario_run_defined have run:
    "runBacktest scenario_backtester = Some (the (runBacktest scenario_backtester))"
    and len: "2 < length (m_signals scenario_backtester)" by simp_all
  from equity_is_cash_plus_position_value [OF run len] run len show ?thesis
    by (metis option.distinct(1))
qed

section \<open>A run with friction\<close>

lemma slippage_run:
  "m_signals slippage_backtester \<noteq> []
   \<and> runBacktest slippage_backtester = Some (the (runBacktest slippage_backtester))
   \<and> m_drawdowns (the (runBacktest slippage_backtester)) = [99 / 100]
   \<and> equityValues (m_equity (the (runBacktest slippage_backtester))) = [9901]"
proof -
  have "map_option m_drawdowns (runBacktest slippage_backtester) = Some [99 / 100]"
    and "map_option (equityValues \<circ> m_equity) (runBacktest slippage_backtester) = Some [9901]"
    by (simp_all add: slippage_backtester_def backtest_eval equityValues_def)
  then have "runBacktest slippage_backtester = Some (the (runBacktest slippage_backtester))"
    and "m_drawdowns (the (runBacktest slippage_backtester)) = [99 / 100]"
    and "equityValues (m_equity (the (runBacktest slippage_backtester))) = [9901]"
    by auto
  then show ?thesis
    by (simp add: slippage_backtester_def loadSignalsFromCSV_def)
qed

section \<open>The two computations of the maximum drawdown\<close>

lemma running_drawdowns_snoc:
  "running_drawdowns h (es @ [e]) =
     running_drawdowns h es @ [(max (foldl max h es) e - e) / max (foldl max h es) e * 100]"
  by (induction es arbitrary: h) simp_all

lemma run_upto_drawdowns:
  assumes "run_upto b k = Some st"
  shows "m_drawdowns (bt st) =
           running_drawdowns (m_initialCapital b) (equityValues (m_equity (bt st)))
    \<and> highWaterMark st = foldl max (m_initialCapital b) (equityValues (m_equity (bt st)))"
  using assms
proof (induction k arbitrary: st)
  case 0
  then show ?case by (auto simp: equityValues_def)
next
  case (Suc k)
  from Suc.prems obtain s where s: "run_upto b k = Some s" and st: "loop_body k s = Some st"
    by (auto split: option.splits)
  from Suc.IH [OF s] loop_body_outputs(1,2,3) [OF st] show ?case
    by (simp add: equityValues_def running_drawdowns_snoc)
qed

lemma foldl_drawdown_step:
  "foldl drawdown_step (m, p) vs = (foldl max m (running_drawdowns p vs), foldl max p vs)"
proof (induction vs arbitrary: m p)
  case Nil
  show ?case by simp
next
  case (Cons v vs)
  have "(if p < v then v else p) = max p v" by (simp add: max_def)
  then have "drawdown_step (m, p) v = (max m ((max p v - v) / max p v * 100), max p v)"
    by (simp add: drawdown_step_def Let_def)
  with Cons.IH show ?case by simp
qed

lemma calculateMaxDrawdown_Cons:
  "calculateMaxDrawdown (v # vs) = foldl max 0 (running_drawdowns v vs)"
proof -
  have "fst (foldl drawdown_step (0, v) (v # vs)) = foldl max 0 (running_drawdowns v (v # vs))"
    by (simp only: foldl_drawdown_step fst_conv)
  then show ?thesis by (simp add: calculateMaxDrawdown_def)
qed

text \<open>
  C1, as the code has it. The engine starts its high-water mark at the initial capital,
  the analyzer starts its peak at the first equity value. So the maximum of the engine's
  drawdown series is what \<open>calculateMaxDrawdown\<close> returns on the initial capital
  followed by the equity values of the run; it is what \<open>calculateMaxDrawdown\<close>
  returns on the equity values alone when the first equity value is not below the
  initial capital.
\<close>

theorem max_drawdown_engine_vs_analyzer:
  assumes "m_signals b \<noteq> []" and "0 < m_initialCapital b" and "runBacktest b = Some b'"
  shows "max_element (m_drawdowns b') =
           Some (calculateMaxDrawdown (m_initialCapital b # equityValues (m_equity b')))
    \<and> (m_initialCapital b \<le> ep_equity (hd (m_equity b'))
        \<longrightarrow> max_element (m_drawdowns b') =
              Some (calculateMaxDrawdown (equityValues (m_equity b'))))"
proof -
  let ?C = "m_initialCapital b"
  from assms(1,3) obtain fin where fin: "run_upto b (length (m_signals b)) = Some fin"
    and b': "b' = bt fin"
    by (rule runBacktest_Some)
  from run_upto_lengths [OF fin] assms(1) b' have "m_equity b' \<noteq> []" by auto
  then obtain e0 es where eqs: "equityValues (m_equity b') = e0 # es"
    and hd: "ep_equity (hd (m_equity b')) = e0"
    by (cases "m_equity b'") (simp_all add: equityValues_def)
  let ?d0 = "(max ?C e0 - e0) / max ?C e0 * 100"
  from run_upto_drawdowns [OF fin] b' eqs
  have dds: "m_drawdowns b' = ?d0 # running_drawdowns (max ?C e0) es" by simp
  then have engine: "max_element (m_drawdowns b') =
      Some (foldl max ?d0 (running_drawdowns (max ?C e0) es))"
    by (simp add: max_element_def)
  from assms(2) have "0 \<le> ?d0" by simp
  then have "max 0 ?d0 = ?d0" by simp
  then have "calculateMaxDrawdown (?C # e0 # es) =
      foldl max ?d0 (running_drawdowns (max ?C e0) es)"
    by (simp add: calculateMaxDrawdown_Cons)
  with engine eqs have first: "max_element (m_drawdowns b') =
      Some (calculateMaxDrawdown (?C # equityValues (m_equity b')))"
    by simp
  have second: "max_element (m_drawdowns b') =
      Some (calculateMaxDrawdown (equityValues (m_equity b')))" if "?C \<le> e0"
  proof -
    from that have "max ?C e0 = e0" by simp
    with engine eqs show ?thesis by (simp add: calculateMaxDrawdown_Cons)
  qed
  from first second hd show ?thesis by simp
qed

lemma falling_run:
  "m_signals falling_backtester \<noteq> []
   \<and> runBacktest falling_backtester = Some (the (runBacktest falling_backtester))
   \<and> m_drawdowns (the (runBacktest falling_backtester)) = [0, 10]
   \<and> equityValues (m_equity (the (runBacktest falling_backtester))) = [10000, 9000]"
proof -
  have "map_option m_drawdowns (runBacktest falling_backtester) = Some [0, 10]"
    and "map_option (equityValues \<circ> m_equity) (runBacktest falling_backtester)
           = Some [10000, 9000]"
    by (simp_all add: falling_backtester_def backtest_eval equityValues_def eval_nat_numeral)
  then have "runBacktest falling_backtester = Some (the (runBacktest falling_backtester))"
    and "m_drawdowns (the (runBacktest falling_backtester)) = [0, 10]"
    and "equityValues (m_equity (the (runBacktest falling_backtester))) = [10000, 9000]"
    by auto
  then show ?thesis
    by (simp add: falling_backtester_def loadSignalsFromCSV_def)
qed

theorem max_drawdown_engine_vs_analyzer_witness:
  "runBacktest falling_backtester \<noteq> None
   \<and> m_initialCapital falling_backtester = 10000
   \<and> equityValues (m_equity (the (runBacktest falling_backtester))) = [10000, 9000]
   \<and> max_element (m_drawdowns (the (runBacktest falling_backtester))) = Some 10
   \<and> calculateMaxDrawdown (equityValues (m_equity (the (runBacktest falling_backtester)))) = 10
   \<and> calculateMaxDrawdown (m_initialCapital falling_backtester
        # equityValues (m_equity (the (runBacktest falling_backtester)))) = 10"
proof -
  have cap: "m_initialCapital falling_backtester = 10000"
    by (simp add: falling_backtester_def loadSignalsFromCSV_def Backtester_init_def)
  from falling_run have ne: "m_signals falling_backtester \<noteq> []"
    and run: "runBacktest falling_backtester = Some (the (runBacktest falling_backtester))"
    and dd: "m_drawdowns (the (runBacktest falling_backtester)) = [0, 10]"
    and eq: "equityValues (m_equity (the (runBacktest falling_backtester))) = [10000, 9000]"
    by simp_all
  from cap have pos: "0 < m_initialCapital falling_backtester" by simp
  from eq have "ep_equity (hd (m_equity (the (runBacktest falling_backtester)))) = 10000"
    by (cases "m_equity (the (runBacktest falling_backtester))") (simp_all add: equityValues_def)
  with cap have first: "m_initialCapital falling_backtester
      \<le> ep_equity (hd (m_equity (the (runBacktest falling_backtester))))" by simp
  from dd have m: "max_element (m_drawdowns (the (runBacktest falling_backtester))) = Some 10"
    by (simp add: max_element_def)
  from max_drawdown_engine_vs_analyzer [OF ne pos run] first m run cap eq show ?thesis
    by (metis option.distinct(1) option.inject)
qed

text \<open>
  C1 as stated fails: with slippage 1 percent the first equity value, 9901, is below the
  initial capital 10000. The engine measures a drawdown of 0.99 percent against the
  initial capital; the analyzer, whose peak starts at 9901, returns 0.
\<close>

theorem max_drawdown_mismatch_counterexample:
  "m_initialCapital slippage_backtester = 10000
   \<and> m_slippage slippage_backtester = 1 / 100
   \<and> m_latency slippage_backtester = 0
   \<and> map sig_price (m_signals slippage_backtester) = [100]
   \<and> Option.bind (runBacktest slippage_backtester) (max_element \<circ> m_drawdowns) = Some (99 / 100)
   \<and> map_option (calculateMaxDrawdown \<circ> equityValues \<circ> m_equity)
        (runBacktest slippage_backtester) = Some 0"
proof -
  from slippage_run have run: "runBacktest slippage_backtester = Some (the (runBacktest slippage_backtester))"
    and dd: "m_drawdowns (the (runBacktest slippage_backtester)) = [99 / 100]"
    and eq: "equityValues (m_equity (the (runBacktest slippage_backtester))) = [9901]"
    by simp_all
  have "Option.bind (runBacktest slippage_backtester) (max_element \<circ> m_drawdowns) = Some (99 / 100)"
    by (subst run) (simp add: dd max_element_def)
  moreover have "map_option (calculateMaxDrawdown \<circ> equityValues \<circ> m_equity)
        (runBacktest slippage_backtester) = Some 0"
    by (subst run) (simp add: eq calculateMaxDrawdown_Cons)
  ultimately show ?thesis
    by (simp add: slippage_backtester_def loadSignalsFromCSV_def Backtester_init_def)
qed

section \<open>Running twice\<close>

lemma latency_price_returns [simp]:
  "latency_price (b\<lparr> m_returns := r \<rparr>) i = latency_price b i"
  by (simp add: latency_price_def Let_def split: option.split)

lemma execute_transition_returns:
  "execute_transition (b\<lparr> m_returns := r \<rparr>) i =
     map_option (\<lambda>b'. b'\<lparr> m_returns := r \<rparr>) (execute_transition b i)"
proof (cases "latency_price b i")
  case None
  then show ?thesis by (simp add: execute_transition_def Let_def)
next
  case (Some p)
  show ?thesis
  proof (cases "sig_signal (m_signals b ! i) = 1 \<and> m_position b = 0")
    case buy: True
    show ?thesis
    proof (cases "shares_for (m_cash b) (p * (1 + m_slippage b))")
      case None
      with Some buy show ?thesis by (simp add: execute_transition_def Let_def)
    next
      case sh: (Some sh)
      show ?thesis
      proof (cases "0 < sh")
        case True
        with Some buy sh show ?thesis by (simp add: execute_transition_def Let_def)
      next
        case False
        with Some buy sh show ?thesis by (simp add: execute_transition_def Let_def)
      qed
    qed
  next
    case nobuy: False
    show ?thesis
    proof (cases "sig_signal (m_signals b ! i) = 0 \<and> 0 < m_position b")
      case True
      with Some nobuy show ?thesis by (simp add: execute_transition_def Let_def)
    next
      case False
      have "execute_transition b i = Some b"
        unfolding execute_transition_def Let_def using Some nobuy False
        by (simp only: option.case if_False)
      moreover have "execute_transition (b\<lparr> m_returns := r \<rparr>) i = Some (b\<lparr> m_returns := r \<rparr>)"
        unfolding execute_transition_def Let_def using Some nobuy False
        by (simp del: de_Morgan_conj)
      ultimately show ?thesis by simp
    qed
  qed
qed

lemma record_step_returns:
  "forget_returns (record_step (b\<lparr> m_returns := r \<rparr>) i le h cs) =
     forget_returns (record_step b i le h cs)"
  by (simp add: forget_returns_def record_step_def Let_def equity_at_def)

lemma loop_body_forget:
  "map_option forget_returns (loop_body i (forget_returns st)) =
     map_option forget_returns (loop_body i st)"
proof -
  have bt: "bt (forget_returns st) = (bt st)\<lparr> m_returns := [] \<rparr>"
    and loc: "lastEquity (forget_returns st) = lastEquity st"
      "highWaterMark (forget_returns st) = highWaterMark st"
      "currentSignal (forget_returns st) = currentSignal st"
    by (simp_all add: forget_returns_def)
  show ?thesis
    unfolding loop_body_def bt loc execute_transition_returns
    by (cases "execute_transition (bt st) i") (simp_all add: record_step_returns)
qed

lemma run_upto_forget:
  assumes "forget_returns (run_init b) = forget_returns (run_init c)"
  shows "map_option forget_returns (run_upto b k) = map_option forget_returns (run_upto c k)"
proof (induction k)
  case 0
  from assms show ?case by simp
next
  case (Suc k)
  show ?case
  proof (cases "run_upto b k")
    case None
    with Suc show ?thesis by simp
  next
    case (Some s)
    with Suc obtain t where t: "run_upto c k = Some t" and st: "forget_returns s = forget_returns t"
      by (cases "run_upto c k") auto
    have "map_option forget_returns (loop_body k s) =
        map_option forget_returns (loop_body k (forget_returns s))"
      by (simp only: loop_body_forget)
    also have "\<dots> = map_option forget_returns (loop_body k t)"
      by (simp only: st loop_body_forget)
    finally show ?thesis using Some t by simp
  qed
qed

lemma forget_returns_simps:
  "m_trades (bt (forget_returns st)) = m_trades (bt st)"
  "m_equity (bt (forget_returns st)) = m_equity (bt st)"
  "m_drawdowns (bt (forget_returns st)) = m_drawdowns (bt st)"
  by (simp_all add: forget_returns_def)

lemma run_init_forget:
  assumes "m_signals c = m_signals b" "m_initialCapital c = m_initialCapital b"
    "m_slippage c = m_slippage b" "m_latency c = m_latency b"
  shows "forget_returns (run_init c) = forget_returns (run_init b)"
proof (rule run_state.equality)
  show "bt (forget_returns (run_init c)) = bt (forget_returns (run_init b))"
    by (rule Backtester.equality) (simp_all add: forget_returns_def assms)
qed (simp_all add: forget_returns_def assms)

lemma second_run_agrees:
  assumes "runBacktest b = Some b1"
  shows "\<exists>b2. runBacktest b1 = Some b2 \<and> m_trades b2 = m_trades b1
    \<and> m_equity b2 = m_equity b1 \<and> m_drawdowns b2 = m_drawdowns b1"
proof (cases "m_signals b = []")
  case True
  with assms have "b1 = b" by (simp add: runBacktest_def)
  with True show ?thesis by (simp add: runBacktest_def)
next
  case False
  from False assms obtain fin where fin: "run_upto b (length (m_signals b)) = Some fin"
    and b1: "b1 = bt fin"
    by (rule runBacktest_Some)
  from run_upto_params [OF fin] b1
  have same: "m_signals b1 = m_signals b" "m_initialCapital b1 = m_initialCapital b"
    "m_slippage b1 = m_slippage b" "m_latency b1 = m_latency b"
    by simp_all
  from run_upto_forget [OF run_init_forget [OF same], of "length (m_signals b)"] fin
  obtain fin2 where fin2: "run_upto b1 (length (m_signals b)) = Some fin2"
    and eq: "forget_returns fin2 = forget_returns fin"
    by (cases "run_upto b1 (length (m_signals b))") auto
  from eq have "m_trades (bt (forget_returns fin2)) = m_trades (bt (forget_returns fin))"
    "m_equity (bt (forget_returns fin2)) = m_equity (bt (forget_returns fin))"
    "m_drawdowns (bt (forget_returns fin2)) = m_drawdowns (bt (forget_returns fin))"
    by simp_all
  then have "m_trades (bt fin2) = m_trades b1" "m_equity (bt fin2) = m_equity b1"
    "m_drawdowns (bt fin2) = m_drawdowns b1"
    unfolding forget_returns_simps b1 by simp_all
  moreover from fin2 same(1) False have "runBacktest b1 = Some (bt fin2)"
    by (simp add: runBacktest_def)
  ultimately show ?thesis by blast
qed

text \<open>
  C9. When a run is defined, a second run on its result is defined as well and leaves
  the same trade log, the same equity points and the same drawdown series.
\<close>

theorem second_run_same_trades_and_equity:
  assumes "runBacktest b = Some b1"
  shows "\<exists>b2. runBacktest b1 = Some b2 \<and> m_trades b2 = m_trades b1
    \<and> m_equity b2 = m_equity b1 \<and> m_drawdowns b2 = m_drawdowns b1"
  using assms by (rule second_run_agrees)

theorem second_run_same_trades_and_equity_witness:
  "runBacktest scenario_backtester \<noteq> None
   \<and> map tr_action (m_trades (the (runBacktest scenario_backtester))) = [''BUY'', ''SELL'']
   \<and> (\<exists>b2. runBacktest (the (runBacktest scenario_backtester)) = Some b2
         \<and> m_trades b2 = m_trades (the (runBacktest scenario_backtester))
         \<and> m_equity b2 = m_equity (the (runBacktest scenario_backtester))
         \<and> m_drawdowns b2 = m_drawdowns (the (runBacktest scenario_backtester)))"
proof (intro conjI)
  from scenario_run_defined have run:
    "runBacktest scenario_backtester = Some (the (runBacktest scenario_backtester))"
    by (rule conjunct2 [THEN conjunct2])
  then show "runBacktest scenario_backtester \<noteq> None"
    by (rule ssubst) (rule option.distinct(2))
  have "map_option (map tr_action \<circ> m_trades) (runBacktest scenario_backtester)
          = Some [''BUY'', ''SELL'']"
    by (simp add: scenario_backtester_def scenario_signals_def backtest_eval eval_nat_numeral)
  then show "map tr_action (m_trades (the (runBacktest scenario_backtester))) = [''BUY'', ''SELL'']"
    by (cases "runBacktest scenario_backtester") simp_all
  show "\<exists>b2. runBacktest (the (runBacktest scenario_backtester)) = Some b2
         \<and> m_trades b2 = m_trades (the (runBacktest scenario_backtester))
         \<and> m_equity b2 = m_equity (the (runBacktest scenario_backtester))
         \<and> m_drawdowns b2 = m_drawdowns (the (runBacktest scenario_backtester))"
    by (rule second_run_same_trades_and_equity [OF run])
qed

section \<open>The return series across runs\<close>

lemma run_upto_returns_length:
  assumes "run_upto b k = Some st"
  shows "length (m_returns (bt st)) = length (m_returns b) + k"
  using assms
proof (induction k arbitrary: st)
  case 0
  then show ?case by auto
next
  case (Suc k)
  from Suc.prems obtain s where s: "run_upto b k = Some s" and st: "loop_body k s = Some st"
    by (auto split: option.splits)
  from Suc.IH [OF s] loop_body_outputs(4) [OF st] show ?case by simp
qed

lemma runBacktest_lengths:
  assumes "m_signals b \<noteq> []" and "runBacktest b = Some b'"
  shows "length (m_equity b') = length (m_signals b)"
    and "length (m_returns b') = length (m_returns b) + length (m_signals b)"
proof -
  from assms obtain fin where fin: "run_upto b (length (m_signals b)) = Some fin"
    and b': "b' = bt fin"
    by (rule runBacktest_Some)
  from run_upto_lengths [OF fin] b' show "length (m_equity b') = length (m_signals b)" by simp
  from run_upto_returns_length [OF fin] b'
  show "length (m_returns b') = length (m_returns b) + length (m_signals b)" by simp
qed

text \<open>
  C2 fails on the code. \<open>runBacktest\<close> clears \<open>m_equity\<close>, \<open>m_trades\<close> and
  \<open>m_drawdowns\<close> on entry but not \<open>m_returns\<close>, so each run appends to the returns
  of the runs before it. After construction, loading the five records of the scenario and
  two runs, there are five equity points and ten returns.
\<close>

theorem returns_not_cleared_between_runs:
  "map_option (length \<circ> m_equity)
     (Option.bind (runBacktest scenario_backtester) runBacktest) = Some 5
   \<and> map_option (length \<circ> m_returns)
     (Option.bind (runBacktest scenario_backtester) runBacktest) = Some 10"
proof -
  let ?b1 = "the (runBacktest scenario_backtester)"
  from scenario_run_defined have ne: "m_signals scenario_backtester \<noteq> []"
    and len: "length (m_signals scenario_backtester) = 5"
    and run1: "runBacktest scenario_backtester = Some ?b1"
    by (rule conjunct1, rule conjunct2 [THEN conjunct1], rule conjunct2 [THEN conjunct2])
  have r0: "m_returns scenario_backtester = []"
    by (simp add: scenario_backtester_def loadSignalsFromCSV_def Backtester_init_def)
  from ne run1 obtain fin where fin: "run_upto scenario_backtester (length (m_signals scenario_backtester)) = Some fin"
    and b1: "?b1 = bt fin"
    by (rule runBacktest_Some)
  from run_upto_params [OF fin] b1 have sigs: "m_signals ?b1 = m_signals scenario_backtester"
    by simp
  from runBacktest_lengths(2) [OF ne run1] r0 len have r1: "length (m_returns ?b1) = 5" by simp
  from second_run_agrees [OF run1] obtain b2 where run2: "runBacktest ?b1 = Some b2" by blast
  from sigs ne have ne1: "m_signals ?b1 \<noteq> []" by simp
  from runBacktest_lengths [OF ne1 run2] sigs len r1
  have "length (m_equity b2) = 5" and "length (m_returns b2) = 10" by simp_all
  moreover have "Option.bind (runBacktest scenario_backtester) runBacktest = Some b2"
    by (subst run1) (simp add: run2)
  ultimately show ?thesis by simp
qed

section \<open>Engine and standalone simulator\<close>

lemmas simulator_eval =
  simulateTrades_def sim_body_def applyLatency_def calculateBuyPrice_def
  calculateSellPrice_def shares_for_def double_to_int_def double_to_size_t_def
  truncate_real_def Let_def

text \<open>
  C10. The engine and \<open>simulateTrades\<close> size a buy differently, and there is a signal
  sequence on which, with the same slippage and latency, their trade logs differ: after a
  round trip that doubles the cash, the engine buys 200 shares at 100 from its cash of
  20000, the simulator buys 100 shares, the integer part of 10000 / 100.
\<close>

theorem engine_and_simulator_logs_differ:
  "m_slippage rebuy_backtester = ts_slippage rebuy_simulator
   \<and> m_latency rebuy_backtester = ts_latency rebuy_simulator
   \<and> m_signals rebuy_backtester = rebuy_signals
   \<and> map_option m_trades (runBacktest rebuy_backtester) =
       Some [\<lparr> tr_timestamp = ''t0'', tr_action = ''BUY'', tr_shares = 100,
                tr_price = 100, tr_value = 10000 \<rparr>,
             \<lparr> tr_timestamp = ''t1'', tr_action = ''SELL'', tr_shares = 100,
                tr_price = 200, tr_value = 20000 \<rparr>,
             \<lparr> tr_timestamp = ''t2'', tr_action = ''BUY'', tr_shares = 200,
                tr_price = 100, tr_value = 20000 \<rparr>]
   \<and> simulateTrades rebuy_simulator rebuy_signals =
       Some [\<lparr> tr_timestamp = ''t0'', tr_action = ''BUY'', tr_shares = 100,
                tr_price = 100, tr_value = 10000 \<rparr>,
             \<lparr> tr_timestamp = ''t1'', tr_action = ''SELL'', tr_shares = 100,
                tr_price = 200, tr_value = 20000 \<rparr>,
             \<lparr> tr_timestamp = ''t2'', tr_action = ''BUY'', tr_shares = 100,
                tr_price = 100, tr_value = 10000 \<rparr>]
   \<and> map_option m_trades (runBacktest rebuy_backtester)
       \<noteq> simulateTrades rebuy_simulator rebuy_signals"
proof -
  have params: "m_slippage rebuy_backtester = ts_slippage rebuy_simulator"
    "m_latency rebuy_backtester = ts_latency rebuy_simulator"
    "m_signals rebuy_backtester = rebuy_signals"
    by (simp_all add: rebuy_backtester_def rebuy_simulator_def loadSignalsFromCSV_def
        Backtester_init_def)
  have engine: "map_option m_trades (runBacktest rebuy_backtester) =
       Some [\<lparr> tr_timestamp = ''t0'', tr_action = ''BUY'', tr_shares = 100,
                tr_price = 100, tr_value = 10000 \<rparr>,
             \<lparr> tr_timestamp = ''t1'', tr_action = ''SELL'', tr_shares = 100,
                tr_price = 200, tr_value = 20000 \<rparr>,
             \<lparr> tr_timestamp = ''t2'', tr_action = ''BUY'', tr_shares = 200,
                tr_price = 100, tr_value = 20000 \<rparr>]"
    by (simp add: rebuy_backtester_def rebuy_signals_def backtest_eval eval_nat_numeral)
  have helper: "simulateTrades rebuy_simulator rebuy_signals =
       Some [\<lparr> tr_timestamp = ''t0'', tr_action = ''BUY'', tr_shares = 100,
                tr_price = 100, tr_value = 10000 \<rparr>,
             \<lparr> tr_timestamp = ''t1'', tr_action = ''SELL'', tr_shares = 100,
                tr_price = 200, tr_value = 20000 \<rparr>,
             \<lparr> tr_timestamp = ''t2'', tr_action = ''BUY'', tr_shares = 100,
                tr_price = 100, tr_value = 10000 \<rparr>]"
    by (simp add: rebuy_simulator_def rebuy_signals_def simulator_eval eval_nat_numeral)
  have "map_option m_trades (runBacktest rebuy_backtester)
       \<noteq> simulateTrades rebuy_simulator rebuy_signals"
    unfolding engine helper by simp
  with params engine helper show ?thesis by (intro conjI)
qed

section \<open>A buy that cannot be afforded\<close>

lemma execute_transition_failed_buy:
  assumes "sig_signal (m_signals b ! i) = 1" and "m_position b = 0"
    and "latency_price b i = Some p"
    and "shares_for (m_cash b) (p * (1 + m_slippage b)) = Some sh" and "sh \<le> 0"
  shows "execute_transition b i = Some b"
  using assms by (simp add: execute_transition_def Let_def)

lemma loop_body_failed_buy:
  assumes "sig_signal (m_signals (bt st) ! i) = 1" and "m_position (bt st) = 0"
    and "latency_price (bt st) i = Some p"
    and "shares_for (m_cash (bt st)) (p * (1 + m_slippage (bt st))) = Some sh" and "sh \<le> 0"
  shows "loop_body i st = Some (record_step (bt st) i (lastEquity st) (highWaterMark st) 1)"
proof (cases "currentSignal st = 1")
  case True
  with assms(1) show ?thesis by (simp add: loop_body_def)
next
  case False
  with assms(1) execute_transition_failed_buy [OF assms] show ?thesis
    by (simp add: loop_body_def)
qed

lemma loop_body_same_signal:
  assumes "sig_signal (m_signals (bt st) ! i) = currentSignal st"
  shows "loop_body i st =
     Some (record_step (bt st) i (lastEquity st) (highWaterMark st) (currentSignal st))"
  using assms by (simp add: loop_body_def)

lemma latency_price_constant:
  assumes "\<forall>sg \<in> set (m_signals b). sig_price sg = c" and "i < length (m_signals b)"
    and "m_latency b \<le> 0 \<or> m_latency b * 10 < 2 ^ 64"
  shows "latency_price b i = Some c"
proof (cases "m_latency b > 0")
  case False
  with assms(1,2) show ?thesis by (simp add: latency_price_def)
next
  case True
  with assms(3) have lt: "m_latency b * 10 < 2 ^ 64" by simp
  from True have "0 \<le> \<lfloor>m_latency b * 10\<rfloor>" by simp
  moreover from lt have "\<lfloor>m_latency b * 10\<rfloor> < 2 ^ 64"
    by (simp add: floor_less_iff)
  ultimately have "double_to_size_t (m_latency b * 10) = Some (nat \<lfloor>m_latency b * 10\<rfloor>)"
    using True by (simp add: double_to_size_t_def truncate_real_def Let_def)
  moreover from assms(2)
  have "min ((i + nat \<lfloor>m_latency b * 10\<rfloor>) mod 2 ^ 64) (length (m_signals b) - 1)
          < length (m_signals b)"
    by simp
  with assms(1) have "sig_price (m_signals b !
      min ((i + nat \<lfloor>m_latency b * 10\<rfloor>) mod 2 ^ 64) (length (m_signals b) - 1)) = c"
    using nth_mem by blast
  ultimately show ?thesis using True by (simp add: latency_price_def Let_def)
qed

lemma shares_for_50_at_100:
  assumes "0 \<le> s"
  shows "shares_for 50 (100 * (1 + s)) = Some 0"
proof -
  from assms have e: "100 \<le> 100 * (1 + s)" by simp
  then have pos: "0 < 100 * (1 + s)" by linarith
  from e pos have "50 / (100 * (1 + s)) < 1"
    by (simp add: divide_less_eq)
  moreover from pos have "0 \<le> 50 / (100 * (1 + s))" by simp
  ultimately have "\<lfloor>50 / (100 * (1 + s))\<rfloor> = 0" by (simp add: floor_eq_iff)
  with pos \<open>0 \<le> 50 / (100 * (1 + s))\<close> show ?thesis
    by (simp add: shares_for_def double_to_int_def truncate_real_def Let_def)
qed

lemma flat_run_upto:
  assumes cap: "m_initialCapital b = 50" and slip: "0 \<le> m_slippage b"
    and lat: "m_latency b \<le> 0 \<or> m_latency b * 10 < 2 ^ 64"
    and sigs: "\<forall>sg \<in> set (m_signals b). sig_price sg = 100 \<and> sig_signal sg = 1"
    and k: "k \<le> length (m_signals b)"
  shows "\<exists>st. run_upto b k = Some st \<and> m_cash (bt st) = 50 \<and> m_position (bt st) = 0
    \<and> m_trades (bt st) = [] \<and> equityValues (m_equity (bt st)) = replicate k 50"
  using k
proof (induction k)
  case 0
  from cap show ?case by (simp add: equityValues_def)
next
  case (Suc k)
  then obtain st where st: "run_upto b k = Some st" and flat: "m_cash (bt st) = 50"
    "m_position (bt st) = 0" "m_trades (bt st) = []"
    "equityValues (m_equity (bt st)) = replicate k 50"
    by auto
  from run_upto_params [OF st] have par: "m_signals (bt st) = m_signals b"
    "m_slippage (bt st) = m_slippage b" "m_latency (bt st) = m_latency b" by simp_all
  from Suc.prems have klt: "k < length (m_signals b)" by simp
  with sigs have one: "sig_signal (m_signals (bt st) ! k) = 1" by (simp add: par)
  from sigs have "\<forall>sg \<in> set (m_signals (bt st)). sig_price sg = 100" by (simp add: par)
  from latency_price_constant [OF this] klt lat par
  have lp: "latency_price (bt st) k = Some 100" by simp
  from shares_for_50_at_100 [OF slip] flat(1) par
  have sh: "shares_for (m_cash (bt st)) (100 * (1 + m_slippage (bt st))) = Some 0" by simp
  from loop_body_failed_buy [OF one flat(2) lp sh]
  have body: "loop_body k st =
      Some (record_step (bt st) k (lastEquity st) (highWaterMark st) 1)" by simp
  let ?st' = "record_step (bt st) k (lastEquity st) (highWaterMark st) 1"
  from st body have "run_upto b (Suc k) = Some ?st'" by simp
  moreover from flat have "m_cash (bt ?st') = 50" "m_position (bt ?st') = 0"
    "m_trades (bt ?st') = []" by simp_all
  moreover from flat have "equityValues (m_equity (bt ?st')) = replicate (Suc k) 50"
    by (simp add: equityValues_def equity_at_def replicate_append_same)
  ultimately show ?case by blast
qed

text \<open>
  C7. When a record asks to buy while the position is flat and the whole-share quantity
  that the cash affords is 0 (or less), the iteration records no trade and leaves cash
  and position as they are, and the current signal becomes 1. An iteration whose record
  repeats the current signal 1 makes no attempt: trades, cash and position stay as they
  are. In particular, with capital 50, slippage at least 0 and every record at price
  100 with signal 1, a run records no trade, ends flat and every equity value is 50.
\<close>

theorem failed_buy_is_not_retried:
  "(sig_signal (m_signals (bt st) ! i) = 1 \<and> currentSignal st \<noteq> 1 \<and> m_position (bt st) = 0
      \<and> latency_price (bt st) i = Some p
      \<and> shares_for (m_cash (bt st)) (p * (1 + m_slippage (bt st))) = Some sh \<and> sh \<le> 0
    \<longrightarrow> (\<exists>st'. loop_body i st = Some st' \<and> m_trades (bt st') = m_trades (bt st)
          \<and> m_position (bt st') = 0 \<and> m_cash (bt st') = m_cash (bt st)
          \<and> currentSignal st' = 1))
   \<and> (sig_signal (m_signals (bt st) ! j) = 1 \<and> currentSignal st = 1
    \<longrightarrow> (\<exists>st'. loop_body j st = Some st' \<and> m_trades (bt st') = m_trades (bt st)
          \<and> m_position (bt st') = m_position (bt st) \<and> m_cash (bt st') = m_cash (bt st)
          \<and> currentSignal st' = 1))
   \<and> (0 \<le> s \<and> (L \<le> 0 \<or> L * 10 < 2 ^ 64)
        \<and> (\<forall>sg \<in> set sigs. sig_price sg = 100 \<and> sig_signal sg = 1)
    \<longrightarrow> (\<exists>b'. runBacktest (snd (loadSignalsFromCSV (Backtester_init 50 s L) (Some sigs)))
                 = Some b'
          \<and> m_trades b' = [] \<and> m_position b' = 0
          \<and> equityValues (m_equity b') = replicate (length sigs) 50))"
proof (intro conjI impI)
  assume a: "sig_signal (m_signals (bt st) ! i) = 1 \<and> currentSignal st \<noteq> 1
      \<and> m_position (bt st) = 0 \<and> latency_price (bt st) i = Some p
      \<and> shares_for (m_cash (bt st)) (p * (1 + m_slippage (bt st))) = Some sh \<and> sh \<le> 0"
  then have "loop_body i st = Some (record_step (bt st) i (lastEquity st) (highWaterMark st) 1)"
    by (intro loop_body_failed_buy [of st i p sh]) simp_all
  with a show "\<exists>st'. loop_body i st = Some st' \<and> m_trades (bt st') = m_trades (bt st)
          \<and> m_position (bt st') = 0 \<and> m_cash (bt st') = m_cash (bt st)
          \<and> currentSignal st' = 1"
    by simp
next
  assume "sig_signal (m_signals (bt st) ! j) = 1 \<and> currentSignal st = 1"
  then show "\<exists>st'. loop_body j st = Some st' \<and> m_trades (bt st') = m_trades (bt st)
          \<and> m_position (bt st') = m_position (bt st) \<and> m_cash (bt st') = m_cash (bt st)
          \<and> currentSignal st' = 1"
    by (simp add: loop_body_same_signal)
next
  let ?b = "snd (loadSignalsFromCSV (Backtester_init 50 s L) (Some sigs))"
  assume a: "0 \<le> s \<and> (L \<le> 0 \<or> L * 10 < 2 ^ 64)
        \<and> (\<forall>sg \<in> set sigs. sig_price sg = 100 \<and> sig_signal sg = 1)"
  have par: "m_initialCapital ?b = 50" "m_slippage ?b = s" "m_latency ?b = L"
    "m_signals ?b = sigs" "m_trades ?b = []" "m_position ?b = 0" "m_equity ?b = []"
    by (simp_all add: loadSignalsFromCSV_def Backtester_init_def)
  show "\<exists>b'. runBacktest ?b = Some b' \<and> m_trades b' = [] \<and> m_position b' = 0
          \<and> equityValues (m_equity b') = replicate (length sigs) 50"
  proof (cases "sigs = []")
    case True
    with par show ?thesis by (simp add: runBacktest_def equityValues_def)
  next
    case False
    from a par have "\<exists>st. run_upto ?b (length (m_signals ?b)) = Some st
        \<and> m_cash (bt st) = 50 \<and> m_position (bt st) = 0
        \<and> m_trades (bt st) = [] \<and> equityValues (m_equity (bt st)) = replicate (length (m_signals ?b)) 50"
      by (intro flat_run_upto) simp_all
    with False par show ?thesis by (auto simp: runBacktest_def)
  qed
qed


theorem failed_buy_is_not_retried_witness:
  "(\<exists>st1 st2. loop_body 0 (run_init shortfall_backtester) = Some st1
       \<and> m_trades (bt st1) = [] \<and> m_position (bt st1) = 0 \<and> m_cash (bt st1) = 50
       \<and> currentSignal st1 = 1
       \<and> loop_body 1 st1 = Some st2
       \<and> m_trades (bt st2) = [] \<and> m_position (bt st2) = 0 \<and> m_cash (bt st2) = 50
       \<and> currentSignal st2 = 1)
   \<and> (\<exists>b'. runBacktest shortfall_backtester = Some b' \<and> m_trades b' = []
         \<and> m_position b' = 0 \<and> equityValues (m_equity b') = [50, 50, 50])"
proof -
  let ?b = shortfall_backtester
  have par: "m_signals ?b = shortfall_signals" "m_initialCapital ?b = 50"
    "m_slippage ?b = 5 / 10000" "m_latency ?b = 0"
    by (simp_all add: shortfall_backtester_def loadSignalsFromCSV_def Backtester_init_def)
  have h1: "sig_signal (m_signals (bt (run_init ?b)) ! 0) = 1
      \<and> currentSignal (run_init ?b) \<noteq> 1 \<and> m_position (bt (run_init ?b)) = 0
      \<and> latency_price (bt (run_init ?b)) 0 = Some 100
      \<and> shares_for (m_cash (bt (run_init ?b))) (100 * (1 + m_slippage (bt (run_init ?b)))) = Some 0
      \<and> (0::int) \<le> 0"
    by (simp add: par shortfall_signals_def latency_price_def shares_for_def double_to_int_def
        truncate_real_def)
  note first = failed_buy_is_not_retried
    [where st = "run_init ?b" and i = 0 and p = 100 and sh = 0, THEN conjunct1]
  from first h1 have "\<exists>st'. loop_body 0 (run_init ?b) = Some st'
      \<and> m_trades (bt st') = m_trades (bt (run_init ?b))
      \<and> m_position (bt st') = 0 \<and> m_cash (bt st') = m_cash (bt (run_init ?b))
      \<and> currentSignal st' = 1"
    by (rule mp)
  then obtain st1 where st1: "loop_body 0 (run_init ?b) = Some st1"
    "m_trades (bt st1) = []" "m_position (bt st1) = 0" "m_cash (bt st1) = 50"
    "currentSignal st1 = 1"
    by (auto simp: par)
  from loop_body_params [OF st1(1)] have "m_signals (bt st1) = shortfall_signals"
    by (simp add: par)
  with st1(5) have h2: "sig_signal (m_signals (bt st1) ! 1) = 1 \<and> currentSignal st1 = 1"
    by (simp add: shortfall_signals_def)
  note second = failed_buy_is_not_retried
    [where st = st1 and j = 1, THEN conjunct2, THEN conjunct1]
  from second h2 have "\<exists>st'. loop_body 1 st1 = Some st'
      \<and> m_trades (bt st') = m_trades (bt st1)
      \<and> m_position (bt st') = m_position (bt st1) \<and> m_cash (bt st') = m_cash (bt st1)
      \<and> currentSignal st' = 1"
    by (rule mp)
  with st1 obtain st2 where st2: "loop_body 1 st1 = Some st2"
    "m_trades (bt st2) = []" "m_position (bt st2) = 0" "m_cash (bt st2) = 50"
    "currentSignal st2 = 1"
    by auto
  have h3: "(0::real) \<le> 5 / 10000 \<and> ((0::real) \<le> 0 \<or> (0::real) * 10 < 2 ^ 64)
      \<and> (\<forall>sg \<in> set shortfall_signals. sig_price sg = 100 \<and> sig_signal sg = 1)"
    by (simp add: shortfall_signals_def)
  note third = failed_buy_is_not_retried
    [where s = "5 / 10000" and L = 0 and sigs = shortfall_signals,
     THEN conjunct2, THEN conjunct2]
  from third h3 have "\<exists>b'. runBacktest
        (snd (loadSignalsFromCSV (Backtester_init 50 (5 / 10000) 0) (Some shortfall_signals)))
          = Some b'
      \<and> m_trades b' = [] \<and> m_position b' = 0
      \<and> equityValues (m_equity b') = replicate (length shortfall_signals) 50"
    by (rule mp)
  then obtain b' where b': "runBacktest ?b = Some b'" "m_trades b' = []" "m_position b' = 0"
    "equityValues (m_equity b') = replicate (length shortfall_signals) 50"
    unfolding shortfall_backtester_def by blast
  from b'(4) have "equityValues (m_equity b') = [50, 50, 50]"
    by (simp add: shortfall_signals_def)
  with st1 st2 b' show ?thesis by blast
qed

section \<open>Evaluation in double precision\<close>

lemma binade_from_numeral:
  "binade_from (numeral k) a e =
     (if 2 powi (e + 1) \<le> a then binade_from (pred_numeral k) a (e + 1)
      else if a < 2 powi e then binade_from (pred_numeral k) a (e - 1)
      else e)"
  by (simp add: numeral_eq_Suc)

lemmas double_eval =
  round_double_def binade_def round_half_even_def Let_def binade_from_numeral

lemma input_doubles:
  "round_double (4590771 / 100) = 6309507618696069 / 137438953472"
  "round_double (939 / 100) = 660762507828265 / 70368744177664"
  "round_double (1 / 100000000000000000000) = 6646139978924579 / 664613997892457936451903530140172288"
  by (simp_all add: double_eval)

text \<open>With the identity for the rounding function, the rounded model is the exact one.\<close>

lemma execute_transition_fp_exact:
  "execute_transition_fp (\<lambda>x. x) b i = execute_transition b i"
  unfolding execute_transition_fp_def execute_transition_def latency_price_fp_def
    latency_price_def shares_for_fp_def shares_for_def
  by (rule refl)

lemma record_step_fp_exact:
  "record_step_fp (\<lambda>x. x) b i le h cs = record_step b i le h cs"
  unfolding record_step_fp_def record_step_def equity_at_fp_def equity_at_def
  by (rule refl)

lemma loop_body_fp_exact: "loop_body_fp (\<lambda>x. x) i st = loop_body i st"
  unfolding loop_body_fp_def loop_body_def execute_transition_fp_exact record_step_fp_exact
  by (rule refl)

lemma run_upto_fp_exact: "run_upto_fp (\<lambda>x. x) b k = run_upto b k"
  by (induction k) (simp_all add: loop_body_fp_exact split: option.split)

lemma runBacktest_fp_exact: "runBacktest_fp (\<lambda>x. x) b = runBacktest b"
  by (simp add: runBacktest_fp_def runBacktest_def run_upto_fp_exact)


lemmas backtest_fp_defs =
  Backtester_init_def loadSignalsFromCSV_def runBacktest_fp_def
  run_init_def loop_body_fp_def record_step_fp_def equity_at_fp_def execute_transition_fp_def
  latency_price_fp_def shares_for_fp_def Let_def

text \<open>
  A run over two records that both ask to buy, without slippage and latency, for any
  rounding function: the first record buys, the second only marks to market. The
  hypotheses name the results of the rounded operations in the order of the code.
\<close>

lemma two_buy_records_fp:
  assumes b: "b = snd (loadSignalsFromCSV (Backtester_init C 0 0)
            (Some [\<lparr> sig_timestamp = t0, sig_price = p, sig_signal = 1 \<rparr>,
                   \<lparr> sig_timestamp = t1, sig_price = p2, sig_signal = 1 \<rparr>]))"
    and eff: "rd (p * rd 1) = e" "e \<noteq> 0"
    and sh: "double_to_int (rd (C / e)) = Some n" "0 < n"
    and cost: "rd (real_of_int n * e) = cost"
    and cash: "rd (C - cost) = cash"
    and eq0: "rd (cash + rd (real_of_int n * p)) = eq0"
    and eq1: "rd (cash + rd (real_of_int n * p2)) = eq1"
    and dd0: "rd (rd (rd (max C eq0 - eq0) / max C eq0) * 100) = dd0"
    and dd1: "rd (rd (rd (max (max C eq0) eq1 - eq1) / max (max C eq0) eq1) * 100) = dd1"
  shows "map_option (map tr_shares \<circ> m_trades) (runBacktest_fp rd b) = Some [n]"
    and "map_option m_cash (runBacktest_fp rd b) = Some cash"
    and "map_option (equityValues \<circ> m_equity) (runBacktest_fp rd b) = Some [eq0, eq1]"
    and "map_option m_drawdowns (runBacktest_fp rd b) = Some [dd0, dd1]"
  using eff sh cost cash eq0 eq1 dd0 dd1
  by (simp_all add: b backtest_fp_defs equityValues_def)


text \<open>The rounded operations of the run on \<open>overbuy_backtester\<close>, one by one.\<close>

lemma overbuy_roundings:
  "round_double (660762507828265 / 70368744177664 * round_double 1) =
     660762507828265 / 70368744177664"
  "double_to_int (round_double (6309507618696069 / 137438953472
       / (660762507828265 / 70368744177664))) = Some 4889"
  "round_double (real_of_int 4889 * (660762507828265 / 70368744177664)) =
     3154753809348035 / 68719476736"
  "round_double (6309507618696069 / 137438953472 - 3154753809348035 / 68719476736) =
     - (1 / 137438953472)"
  "round_double (- (1 / 137438953472)
       + round_double (real_of_int 4889 * (660762507828265 / 70368744177664))) =
     6309507618696069 / 137438953472"
  "round_double (- (1 / 137438953472)
       + round_double (real_of_int 4889
            * (6646139978924579 / 664613997892457936451903530140172288))) =
     - (9007138731852471 / 1237940039285380274899124224)"
  by (simp_all add: double_eval double_to_int_def truncate_real_def)

lemma overbuy_drawdowns:
  "round_double (round_double (round_double
       (max (6309507618696069 / 137438953472) (6309507618696069 / 137438953472)
          - 6309507618696069 / 137438953472)
       / max (6309507618696069 / 137438953472) (6309507618696069 / 137438953472)) * 100) = 0"
  "round_double (round_double (round_double
       (max (max (6309507618696069 / 137438953472) (6309507618696069 / 137438953472))
            (- (9007138731852471 / 1237940039285380274899124224))
          - - (9007138731852471 / 1237940039285380274899124224))
       / max (max (6309507618696069 / 137438953472) (6309507618696069 / 137438953472))
            (- (9007138731852471 / 1237940039285380274899124224))) * 100) =
     3518437208883201 / 35184372088832"
  by (simp_all add: double_eval)

lemma overbuy_exact:
  "double_to_int (6309507618696069 / 137438953472 / (660762507828265 / 70368744177664))
     = Some 4888"
  by (simp add: double_to_int_def truncate_real_def)


text \<open>
  The part of C6 that no rounding touches: the high-water mark is updated by a maximum
  only, so it never decreases from one point of a run to a later one, for every
  rounding function.
\<close>

lemma loop_body_fp_highWaterMark:
  assumes "loop_body_fp rd i st = Some st'"
  shows "highWaterMark st \<le> highWaterMark st'"
proof -
  from assms obtain b' cs where
    "st' = record_step_fp rd b' i (lastEquity st) (highWaterMark st) cs"
    unfolding loop_body_fp_def by (simp split: option.splits if_splits) blast+
  then show ?thesis by (simp add: record_step_fp_def Let_def)
qed

lemma highWaterMark_fp_mono:
  assumes "run_upto_fp rd b k = Some t" and "run_upto_fp rd b j = Some s" and "j \<le> k"
  shows "highWaterMark s \<le> highWaterMark t"
  using assms
proof (induction k arbitrary: t)
  case 0
  then show ?case by simp
next
  case (Suc k)
  show ?case
  proof (cases "j = Suc k")
    case True
    with Suc.prems show ?thesis by simp
  next
    case False
    with Suc.prems have jk: "j \<le> k" by simp
    from Suc.prems(1) obtain u where u: "run_upto_fp rd b k = Some u"
      and t: "loop_body_fp rd k u = Some t"
      by (auto split: option.splits)
    from Suc.IH [OF u Suc.prems(2) jk] loop_body_fp_highWaterMark [OF t] show ?thesis
      by simp
  qed
qed

text \<open>
  C6 fails on the code. With capital 45907.71 and a buy at price 9.39 the quotient
  \<open>m_cash / effectivePrice\<close> is below 4889, but the double nearest to it is 4889.0:
  the code buys 4889 shares where the cash pays for 4888, the cost rounds to a double
  above the cash and \<open>m_cash\<close> becomes negative. When the price then falls to 1e-20
  the equity is negative and the recorded drawdown is 100.00000000000003, above 100.
  The input satisfies the hypotheses of the claim: positive prices, positive capital,
  slippage 0.
\<close>

theorem overbuy_drawdown_above_100:
  "0 < m_initialCapital overbuy_backtester
   \<and> m_slippage overbuy_backtester = 0 \<and> m_latency overbuy_backtester = 0
   \<and> map sig_price (m_signals overbuy_backtester) =
        [660762507828265 / 70368744177664,
         6646139978924579 / 664613997892457936451903530140172288]
   \<and> map_option (map tr_shares \<circ> m_trades) (runBacktest_double overbuy_backtester)
        = Some [4889]
   \<and> map_option (map tr_shares \<circ> m_trades) (runBacktest overbuy_backtester) = Some [4888]
   \<and> map_option m_cash (runBacktest_double overbuy_backtester) = Some (- (1 / 137438953472))
   \<and> map_option (equityValues \<circ> m_equity) (runBacktest_double overbuy_backtester) =
        Some [6309507618696069 / 137438953472,
              - (9007138731852471 / 1237940039285380274899124224)]
   \<and> map_option m_drawdowns (runBacktest_double overbuy_backtester) =
        Some [0, 3518437208883201 / 35184372088832]
   \<and> (100 :: real) < 3518437208883201 / 35184372088832"
proof -
  let ?C = "6309507618696069 / 137438953472 :: real"
  let ?p = "660762507828265 / 70368744177664 :: real"
  let ?p2 = "6646139978924579 / 664613997892457936451903530140172288 :: real"
  have b: "overbuy_backtester =
      snd (loadSignalsFromCSV (Backtester_init ?C 0 0)
            (Some [\<lparr> sig_timestamp = ''t0'', sig_price = ?p, sig_signal = 1 \<rparr>,
                   \<lparr> sig_timestamp = ''t1'', sig_price = ?p2, sig_signal = 1 \<rparr>]))"
    by (simp only: overbuy_backtester_def input_doubles)
  have input: "0 < m_initialCapital overbuy_backtester"
    "m_slippage overbuy_backtester = 0" "m_latency overbuy_backtester = 0"
    "map sig_price (m_signals overbuy_backtester) = [?p, ?p2]"
    by (simp_all add: b loadSignalsFromCSV_def Backtester_init_def)
  note rounded = two_buy_records_fp [where rd = round_double, OF b overbuy_roundings(1) _
      overbuy_roundings(2) _ overbuy_roundings(3,4,5,6) overbuy_drawdowns]
  have double:
    "map_option (map tr_shares \<circ> m_trades) (runBacktest_double overbuy_backtester)
        = Some [4889]"
    "map_option m_cash (runBacktest_double overbuy_backtester) = Some (- (1 / 137438953472))"
    "map_option (equityValues \<circ> m_equity) (runBacktest_double overbuy_backtester) =
        Some [?C, - (9007138731852471 / 1237940039285380274899124224)]"
    "map_option m_drawdowns (runBacktest_double overbuy_backtester) =
        Some [0, 3518437208883201 / 35184372088832]"
    unfolding runBacktest_double_def by (rule rounded; simp)+
  have "map_option (map tr_shares \<circ> m_trades) (runBacktest_fp (\<lambda>x. x) overbuy_backtester)
      = Some [4888]"
  proof (rule two_buy_records_fp(1) [where rd = "\<lambda>x. x" and e = ?p and n = 4888, OF b])
    show "?p * 1 = ?p" by simp
    show "?p \<noteq> 0" by simp
    show "double_to_int (?C / ?p) = Some 4888" by (rule overbuy_exact)
    show "(0::int) < 4888" by simp
  qed (rule refl)+
  then have exact: "map_option (map tr_shares \<circ> m_trades) (runBacktest overbuy_backtester)
      = Some [4888]"
    by (simp only: runBacktest_fp_exact)
  have above: "(100 :: real) < 3518437208883201 / 35184372088832" by simp
  from input double exact above show ?thesis by (intro conjI)
qed

section \<open>Degenerate inputs of the metrics\<close>

lemma foldl_downside_step_fp_none:
  assumes "\<forall>r \<in> set rs. 0 \<le> r"
  shows "foldl (downside_step_fp rd) acc rs = acc"
  using assms by (induction rs arbitrary: acc) (simp_all add: downside_step_fp_def)

text \<open>
  The cases of C8 that no rounding touches: an empty series, a series without a
  negative return, an empty equity path. They hold for every rounding function.
\<close>

lemma ratios_zero_without_arithmetic:
  "calculateSharpeRatio_fp rd [] rf = 0"
  "calculateSortinoRatio_fp rd [] rf = 0"
  "\<forall>r \<in> set ds. 0 \<le> r \<Longrightarrow> calculateSortinoRatio_fp rd ds rf = 0"
  "m_equity b = [] \<Longrightarrow>
     getResults b = Some \<lparr> finalEquity = 0, finalReturn = 0, maxDrawdown = 0,
                             sharpeRatio = 0, totalTrades = 0 \<rparr>"
proof -
  show "calculateSharpeRatio_fp rd [] rf = 0" by (simp add: calculateSharpeRatio_fp_def)
  show "calculateSortinoRatio_fp rd [] rf = 0" by (simp add: calculateSortinoRatio_fp_def)
  show "calculateSortinoRatio_fp rd ds rf = 0" if "\<forall>r \<in> set ds. 0 \<le> r"
    using foldl_downside_step_fp_none [OF that, of rd "(0, 0)"]
    by (simp add: calculateSortinoRatio_fp_def Let_def)
  show "getResults b = Some \<lparr> finalEquity = 0, finalReturn = 0, maxDrawdown = 0,
                                sharpeRatio = 0, totalTrades = 0 \<rparr>" if "m_equity b = []"
    using that by (simp add: getResults_def BacktestResults_default_def)
qed

text \<open>
  The Sharpe ratio of a series of three equal returns, for any rounding function. The
  hypotheses name the results of the rounded operations in the order of the code.
\<close>

lemma sharpe_three_equal_fp:
  assumes sum: "rd r = s1" "rd (s1 + r) = s2" "rd (s2 + r) = s3"
    and mean: "rd (s3 / 3) = m"
    and dev: "rd (r - m) = d" "rd (d * d) = q"
    and sq: "rd q = q1" "rd (q1 + q) = q2" "rd (q2 + q) = q3"
    and var: "rd (q3 / 3) = v"
    and sd: "rd (sqrt v) = sd" "sd \<noteq> 0"
    and excess: "rd (rf / 252) = t" "rd (m - t) = u"
    and daily: "rd (u / sd) = daily"
    and annual: "rd (sqrt 252) = w" "rd (daily * w) = res"
  shows "calculateSharpeRatio_fp rd [r, r, r] rf = res"
  using assms by (simp add: calculateSharpeRatio_fp_def Let_def)


lemma round_half_even_near:
  assumes "\<bar>x - of_int N\<bar> < 1 / 2"
  shows "round_half_even x = N"
proof -
  from assms have "x - of_int N < 1 / 2 \<and> - (x - of_int N) < 1 / 2"
    by (simp only: abs_less_iff)
  then have up: "x - of_int N < 1 / 2" and lo: "- (1 / 2) < x - of_int N"
    by linarith+
  show ?thesis
  proof (cases "of_int N \<le> x")
    case True
    have f: "\<lfloor>x\<rfloor> = N"
    proof (rule floor_unique)
      show "of_int N \<le> x" by fact
      show "x < of_int N + 1" using up by linarith
    qed
    with up show ?thesis by (simp add: round_half_even_def Let_def)
  next
    case False
    have f: "\<lfloor>x\<rfloor> = N - 1"
    proof (rule floor_unique)
      show "of_int (N - 1) \<le> x" using lo by simp
      show "x < of_int (N - 1) + 1" using False by simp
    qed
    from lo have half: "1 / 2 < x - of_int (N - 1)" by simp
    then have "\<not> x - of_int (N - 1) < 1 / 2" by linarith
    with f half show ?thesis
      by (simp add: round_half_even_def Let_def)
  qed
qed

lemma sqrt_252_bounds:
  "2 \<le> sqrt 252" "4 \<le> sqrt 252" "8 \<le> sqrt 252" "\<not> 16 \<le> sqrt 252" "\<not> sqrt 252 < 8"
  "sqrt 252 \<noteq> 0" "\<bar>sqrt 252\<bar> = sqrt 252" "sgn (sqrt 252) = 1"
proof -
  have lo: "8 \<le> sqrt 252" by (rule real_le_rsqrt) simp
  have hi: "sqrt 252 < 16" by (rule real_less_lsqrt) simp_all
  from lo hi show "2 \<le> sqrt 252" "4 \<le> sqrt 252" "8 \<le> sqrt 252" "\<not> 16 \<le> sqrt 252"
    "\<not> sqrt 252 < 8" "sqrt 252 \<noteq> 0" "\<bar>sqrt 252\<bar> = sqrt 252" "sgn (sqrt 252) = 1"
    by simp_all
qed

lemma sqrt_252_scaled:
  "\<bar>sqrt 252 * 562949953421312 - real_of_int 8936553463969119\<bar> < 1 / 2"
proof -
  have "sqrt (562949953421312\<^sup>2) = (562949953421312 :: real)"
    by (rule real_sqrt_unique) simp_all
  then have eq: "sqrt 252 * 562949953421312 = sqrt (252 * 562949953421312\<^sup>2)"
    by (simp only: real_sqrt_mult)
  have "real_of_int 8936553463969119 - 1 / 2 < sqrt (252 * 562949953421312\<^sup>2)"
    by (rule real_less_rsqrt) (simp add: power2_eq_square)
  moreover have "sqrt (252 * 562949953421312\<^sup>2) < real_of_int 8936553463969119 + 1 / 2"
    by (rule real_less_lsqrt) (simp_all add: power2_eq_square)
  ultimately have "\<bar>sqrt (252 * 562949953421312\<^sup>2) - real_of_int 8936553463969119\<bar> < 1 / 2"
    unfolding abs_less_iff by linarith
  then show ?thesis by (simp only: eq)
qed

lemma round_double_sqrt_252:
  "round_double (sqrt 252) = 8936553463969119 / 562949953421312"
proof -
  have b: "binade \<bar>sqrt 252\<bar> = 3"
    by (simp add: binade_def binade_from_numeral sqrt_252_bounds)
  have "round_half_even (\<bar>sqrt 252\<bar> / 2 powi (3 - 52)) = 8936553463969119"
    using sqrt_252_scaled by (intro round_half_even_near) (simp add: sqrt_252_bounds)
  with b show ?thesis
    by (simp add: round_double_def Let_def sqrt_252_bounds)
qed

lemma round_double_sqrt_variance:
  "round_double (sqrt (1 / 5192296858534827628530496329220096)) = 1 / 72057594037927936"
proof -
  have e: "sqrt (1 / 5192296858534827628530496329220096) = 1 / 72057594037927936"
    by (rule real_sqrt_unique) (simp_all add: power2_eq_square)
  show ?thesis unfolding e by (simp add: double_eval)
qed


lemma ratio_input_doubles:
  "round_double (1 / 10) = 3602879701896397 / 36028797018963968"
  "round_double (2 / 100) = 5764607523034235 / 288230376151711744"
  by (simp_all add: double_eval)

lemma spec_population_stddev_constant: "spec_population_stddev [x, x, x] = 0"
  by (simp add: spec_population_stddev_def spec_mean_def)

text \<open>
  C8 fails on the code. For the series 0.1, 0.1, 0.1 the population standard deviation
  is 0, but the rounded sum 0.30000000000000004 gives the mean 0.10000000000000002,
  which differs from the elements; the deviations are not 0, \<open>stdDev\<close> is
  \<open>2 ^ - 56\<close>, the test \<open>stdDev == 0.0\<close> fails, and with a risk-free rate of 0.02
  \<open>calculateSharpeRatio\<close> returns 114297100303615216 (about 1.14e17) instead of 0.
\<close>

theorem sharpe_of_constant_series_not_zero:
  "spec_population_stddev [round_double (1 / 10), round_double (1 / 10), round_double (1 / 10)]
     = 0
   \<and> calculateSharpeRatio_double
        [round_double (1 / 10), round_double (1 / 10), round_double (1 / 10)]
        (round_double (2 / 100)) = 114297100303615216"
proof
  show "spec_population_stddev
      [round_double (1 / 10), round_double (1 / 10), round_double (1 / 10)] = 0"
    by (rule spec_population_stddev_constant)
  let ?r = "3602879701896397 / 36028797018963968 :: real"
  let ?rf = "5764607523034235 / 288230376151711744 :: real"
  let ?s2 = "3602879701896397 / 18014398509481984 :: real"
  let ?s3 = "1351079888211149 / 4503599627370496 :: real"
  let ?m = "7205759403792795 / 72057594037927936 :: real"
  let ?d = "- (1 / 72057594037927936) :: real"
  let ?q = "1 / 5192296858534827628530496329220096 :: real"
  let ?q2 = "1 / 2596148429267413814265248164610048 :: real"
  let ?q3 = "3 / 5192296858534827628530496329220096 :: real"
  let ?sd = "1 / 72057594037927936 :: real"
  let ?t = "732013653718633 / 9223372036854775808 :: real"
  let ?u = "3600020273561559 / 36028797018963968 :: real"
  let ?daily = "7200040547123118 :: real"
  let ?w = "8936553463969119 / 562949953421312 :: real"
  have "calculateSharpeRatio_fp round_double [?r, ?r, ?r] ?rf = 114297100303615216"
  proof (rule sharpe_three_equal_fp [where ?s1.0 = ?r and ?s2.0 = ?s2 and ?s3.0 = ?s3 and m = ?m
        and d = ?d and q = ?q and ?q1.0 = ?q and ?q2.0 = ?q2 and ?q3.0 = ?q3 and v = ?q
        and sd = ?sd and t = ?t and u = ?u and daily = ?daily and w = ?w])
    show "round_double ?r = ?r" by (simp add: double_eval)
    show "round_double (?r + ?r) = ?s2" by (simp add: double_eval)
    show "round_double (?s2 + ?r) = ?s3" by (simp add: double_eval)
    show "round_double (?s3 / 3) = ?m" by (simp add: double_eval)
    show "round_double (?r - ?m) = ?d" by (simp add: double_eval)
    show "round_double (?d * ?d) = ?q" by (simp add: double_eval)
    show "round_double ?q = ?q" by (simp add: double_eval)
    show "round_double (?q + ?q) = ?q2" by (simp add: double_eval)
    show "round_double (?q2 + ?q) = ?q3" by (simp add: double_eval)
    show "round_double (?q3 / 3) = ?q" by (simp add: double_eval)
    show "round_double (sqrt ?q) = ?sd" by (rule round_double_sqrt_variance)
    show "?sd \<noteq> 0" by simp
    show "round_double (?rf / 252) = ?t" by (simp add: double_eval)
    show "round_double (?m - ?t) = ?u" by (simp add: double_eval)
    show "round_double (?u / ?sd) = ?daily" by (simp add: double_eval)
    show "round_double (sqrt 252) = ?w" by (rule round_double_sqrt_252)
    show "round_double (?daily * ?w) = 114297100303615216" by (simp add: double_eval)
  qed
  then show "calculateSharpeRatio_double
        [round_double (1 / 10), round_double (1 / 10), round_double (1 / 10)]
        (round_double (2 / 100)) = 114297100303615216"
    by (simp only: calculateSharpeRatio_double_def ratio_input_doubles)
qed

end
